theory Spec2Isabelle
  imports Main
begin

section \<open>Python values the service relies on\<close>

text \<open>
  The process environment after \<^verbatim>\<open>load_dotenv()\<close>: \<^verbatim>\<open>os.getenv(k)\<close> is \<open>environ k\<close>,
  \<open>None\<close> for a variable that is not set.
\<close>

type_synonym environ = "string \<rightharpoonup> string"

text \<open>
  Truth value of an \<^verbatim>\<open>Optional[str]\<close>, as \<^verbatim>\<open>all([...])\<close> and \<^verbatim>\<open>if participant_name:\<close>
  test it: \<^verbatim>\<open>None\<close> and the empty string are both false.
\<close>

definition truthy :: "string option \<Rightarrow> bool" where
  "truthy v = (case v of None \<Rightarrow> False | Some s \<Rightarrow> s \<noteq> [])"

datatype py_error = ValueError string

text \<open>\<^verbatim>\<open>str(n)\<close> for a Python int: decimal digits, a minus sign for a negative number.\<close>

fun digits :: "nat \<Rightarrow> string" where
  "digits n =
     (if n < 10 then [''0123456789'' ! n]
      else digits (n div 10) @ [''0123456789'' ! (n mod 10)])"

declare digits.simps [simp del]

definition str :: "int \<Rightarrow> string" where
  "str i = (if i < 0 then CHR ''-'' # digits (nat (- i)) else digits (nat i))"

section \<open>The grant signer (livekit\_service.py)\<close>

text \<open>
  The \<^verbatim>\<open>livekit.api\<close> package is a third-party library. Its token builder is modelled
  by what the source asks of it: a \<open>VideoGrants\<close> value holds the keyword arguments
  the source passes to the constructor (\<open>None\<close> for a keyword that is not passed),
  the builder methods \<^verbatim>\<open>with_identity\<close>, \<^verbatim>\<open>with_name\<close>, \<^verbatim>\<open>with_metadata\<close> and
  \<^verbatim>\<open>with_grants\<close> record their argument, and \<^verbatim>\<open>to_jwt\<close> checks the grant and
  then signs it. The signed token is an opaque value of type \<open>'jwt\<close>.
\<close>

record VideoGrants =
  grant_room_create :: "bool option"
  grant_room_list :: "bool option"
  grant_room_admin :: "bool option"
  grant_room_join :: "bool option"
  grant_room :: "string option"
  grant_can_publish :: "bool option"
  grant_can_subscribe :: "bool option"
  grant_can_publish_data :: "bool option"

definition VideoGrants_none :: VideoGrants where
  "VideoGrants_none =
     \<lparr>grant_room_create = None, grant_room_list = None, grant_room_admin = None,
      grant_room_join = None, grant_room = None, grant_can_publish = None,
      grant_can_subscribe = None, grant_can_publish_data = None\<rparr>"

record Claims =
  claim_identity :: "string option"
  claim_name :: "string option"
  claim_metadata :: "string option"
  claim_video :: "VideoGrants option"

record AccessToken =
  token_api_key :: string
  token_api_secret :: string
  token_claims :: Claims

definition AccessToken_new :: "string \<Rightarrow> string \<Rightarrow> AccessToken" where
  "AccessToken_new k s =
     \<lparr>token_api_key = k, token_api_secret = s,
      token_claims = \<lparr>claim_identity = None, claim_name = None, claim_metadata = None,
                      claim_video = None\<rparr>\<rparr>"

definition with_identity :: "string \<Rightarrow> AccessToken \<Rightarrow> AccessToken" where
  "with_identity i t = t\<lparr>token_claims := (token_claims t)\<lparr>claim_identity := Some i\<rparr>\<rparr>"

definition with_name :: "string \<Rightarrow> AccessToken \<Rightarrow> AccessToken" where
  "with_name n t = t\<lparr>token_claims := (token_claims t)\<lparr>claim_name := Some n\<rparr>\<rparr>"

definition with_metadata :: "string \<Rightarrow> AccessToken \<Rightarrow> AccessToken" where
  "with_metadata m t = t\<lparr>token_claims := (token_claims t)\<lparr>claim_metadata := Some m\<rparr>\<rparr>"

definition with_grants :: "VideoGrants \<Rightarrow> AccessToken \<Rightarrow> AccessToken" where
  "with_grants g t = t\<lparr>token_claims := (token_claims t)\<lparr>claim_video := Some g\<rparr>\<rparr>"

record LiveKitService =
  api_key :: string
  api_secret :: string
  livekit_url :: string

text \<open>
  \<^verbatim>\<open>LiveKitService.__init__\<close>: reads the three variables and raises \<^verbatim>\<open>ValueError\<close>
  unless all three are true values. After the test each of them is a non-empty string,
  so the last branch of the case below is never taken.
\<close>

definition LiveKitService_init :: "environ \<Rightarrow> py_error + LiveKitService" where
  "LiveKitService_init environ =
     (let k = environ ''LIVEKIT_API_KEY'';
          s = environ ''LIVEKIT_API_SECRET'';
          u = environ ''LIVEKIT_URL''
      in if \<not> list_all truthy [k, s, u]
         then Inl (ValueError
           ''LiveKit configuration is incomplete. Please check your environment variables.'')
         else (case (k, s, u) of
                 (Some k', Some s', Some u') \<Rightarrow>
                   Inr \<lparr>api_key = k', api_secret = s', livekit_url = u'\<rparr>
               | _ \<Rightarrow> Inl (ValueError
           ''LiveKit configuration is incomplete. Please check your environment variables.'')))"

text \<open>
  The module-level statement \<^verbatim>\<open>livekit_service = LiveKitService()\<close>: importing the
  module runs the constructor, and an exception there ends the import (and with it the
  start of the process, since main.py imports the module).
\<close>

definition livekit_service :: "environ \<Rightarrow> py_error + LiveKitService" where
  "livekit_service environ = LiveKitService_init environ"

text \<open>
  \<^verbatim>\<open>token.to_jwt()\<close>. The library refuses a grant with \<^verbatim>\<open>room_join\<close> set whose
  identity or room is empty (\<^verbatim>\<open>if video and video.room_join and (not self.identity or
  not video.room)\<close>) and raises \<^verbatim>\<open>ValueError\<close>; otherwise it encodes and signs the
  claims with the secret. The encoding and signature is the parameter \<open>sign\<close>.
\<close>

definition to_jwt :: "(AccessToken \<Rightarrow> 'jwt) \<Rightarrow> AccessToken \<Rightarrow> py_error + 'jwt" where
  "to_jwt sign token =
     (case claim_video (token_claims token) of
        None \<Rightarrow> Inr (sign token)
      | Some video \<Rightarrow>
          if grant_room_join video = Some True \<and>
             (\<not> truthy (claim_identity (token_claims token)) \<or> \<not> truthy (grant_room video))
          then Inl (ValueError ''identity and room must be set when joining a room'')
          else Inr (sign token))"

text \<open>
  \<^verbatim>\<open>create_access_token\<close>: the room-join grant. \<^verbatim>\<open>if participant_name:\<close> and
  \<^verbatim>\<open>if metadata:\<close> are true for a string that is given and not empty; only then is
  the builder method called. The function has no \<^verbatim>\<open>try\<close>: what \<^verbatim>\<open>to_jwt\<close> raises
  leaves it.
\<close>

definition create_access_token ::
  "(AccessToken \<Rightarrow> 'jwt) \<Rightarrow> LiveKitService \<Rightarrow> string \<Rightarrow> string \<Rightarrow> string option \<Rightarrow>
     string option \<Rightarrow> py_error + 'jwt"
where
  "create_access_token sign self room_name participant_identity participant_name metadata =
     (let token = AccessToken_new (api_key self) (api_secret self);
          token = with_identity participant_identity token;
          token = (case participant_name of
                     Some n \<Rightarrow> if n \<noteq> [] then with_name n token else token
                   | None \<Rightarrow> token);
          token = (case metadata of
                     Some m \<Rightarrow> if m \<noteq> [] then with_metadata m token else token
                   | None \<Rightarrow> token);
          token = with_grants
                    (VideoGrants_none\<lparr>grant_room_join := Some True,
                       grant_room := Some room_name, grant_can_publish := Some True,
                       grant_can_subscribe := Some True,
                       grant_can_publish_data := Some True\<rparr>) token
      in to_jwt sign token)"

text \<open>\<^verbatim>\<open>create_room_admin_token\<close>: the admin grant, with no room.\<close>

definition create_room_admin_token ::
  "(AccessToken \<Rightarrow> 'jwt) \<Rightarrow> LiveKitService \<Rightarrow> string \<Rightarrow> py_error + 'jwt"
where
  "create_room_admin_token sign self participant_identity =
     (let token = AccessToken_new (api_key self) (api_secret self);
          token = with_identity participant_identity token;
          token = with_grants
                    (VideoGrants_none\<lparr>grant_room_create := Some True,
                       grant_room_list := Some True, grant_room_admin := Some True\<rparr>) token
      in to_jwt sign token)"

section \<open>The media-server gateway (livekit\_service.py)\<close>

text \<open>
  A call into the platform client either returns or raises an \<^verbatim>\<open>Exception\<close> (with its
  message). The client is a parameter of the model: \<open>platform uri k s\<close> is
  \<^verbatim>\<open>api.RoomService(http_uri=uri, api_key=k, api_secret=s)\<close>, and the fields of a client
  are its methods. \<open>'r\<close> is the platform's room message, which the source never
  inspects. The \<^verbatim>\<open>print\<close> of a caught exception is not modelled.
\<close>

datatype 'a outcome = Returns 'a | Raises string

record ParticipantPermission =
  perm_can_publish :: bool
  perm_can_subscribe :: bool
  perm_can_publish_data :: bool

record ParticipantInfo =
  pi_identity :: string
  pi_name :: string
  pi_metadata :: string
  pi_tracks :: "string list"
  pi_permission :: ParticipantPermission

record 'r RoomService =
  rs_get_room :: "string \<Rightarrow> 'r outcome"
  rs_list_participants :: "string \<Rightarrow> ParticipantInfo list outcome"
  rs_create_room :: "string \<Rightarrow> int option \<Rightarrow> 'r outcome"
  rs_delete_room :: "string \<Rightarrow> unit outcome"

type_synonym 'r platform = "string \<Rightarrow> string \<Rightarrow> string \<Rightarrow> 'r RoomService outcome"

text \<open>\<^verbatim>\<open>s.replace(old, new)\<close>: every occurrence of \<open>old\<close>, from the left, not overlapping.\<close>

function replace :: "string \<Rightarrow> string \<Rightarrow> string \<Rightarrow> string" where
  "replace old new [] = (if old = [] then new else [])"
| "replace old new (c # cs) =
     (if old = [] then new @ concat (map (\<lambda>x. x # new) (c # cs))
      else if take (length old) (c # cs) = old
           then new @ replace old new (drop (length old) (c # cs))
           else c # replace old new cs)"
  by pat_completeness auto
termination
  by (relation "measure (\<lambda>(old, new, s). length s)") auto

definition http_uri :: "LiveKitService \<Rightarrow> string" where
  "http_uri self =
     replace ''ws://'' ''http://'' (replace ''wss://'' ''https://'' (livekit_url self))"

record 'r room_info =
  info_room :: 'r
  info_participants :: "ParticipantInfo list"

text \<open>
  The three gateway methods. Each body is one \<^verbatim>\<open>try\<close> block whose
  \<^verbatim>\<open>except Exception\<close> returns \<^verbatim>\<open>None\<close> (or \<^verbatim>\<open>False\<close>); the result says whether
  the method itself returns or raises.
\<close>

definition LiveKitService_get_room_info ::
  "'r platform \<Rightarrow> LiveKitService \<Rightarrow> string \<Rightarrow> 'r room_info option outcome"
where
  "LiveKitService_get_room_info platform self room_name =
     (case platform (http_uri self) (api_key self) (api_secret self) of
        Raises e \<Rightarrow> Returns None
      | Returns room_client \<Rightarrow>
          (case rs_get_room room_client room_name of
             Raises e \<Rightarrow> Returns None
           | Returns room \<Rightarrow>
               (case rs_list_participants room_client room_name of
                  Raises e \<Rightarrow> Returns None
                | Returns participants \<Rightarrow>
                    Returns (Some \<lparr>info_room = room, info_participants = participants\<rparr>))))"

definition LiveKitService_create_room ::
  "'r platform \<Rightarrow> LiveKitService \<Rightarrow> string \<Rightarrow> int option \<Rightarrow> 'r option outcome"
where
  "LiveKitService_create_room platform self room_name max_participants =
     (case platform (http_uri self) (api_key self) (api_secret self) of
        Raises e \<Rightarrow> Returns None
      | Returns room_client \<Rightarrow>
          (case rs_create_room room_client room_name max_participants of
             Raises e \<Rightarrow> Returns None
           | Returns room \<Rightarrow> Returns (Some room)))"

definition LiveKitService_delete_room ::
  "'r platform \<Rightarrow> LiveKitService \<Rightarrow> string \<Rightarrow> bool outcome"
where
  "LiveKitService_delete_room platform self room_name =
     (case platform (http_uri self) (api_key self) (api_secret self) of
        Raises e \<Rightarrow> Returns False
      | Returns room_client \<Rightarrow>
          (case rs_delete_room room_client room_name of
             Raises e \<Rightarrow> Returns False
           | Returns u \<Rightarrow> Returns True))"

section \<open>The relational store (database.py)\<close>

text \<open>
  A table is the list of its rows, in insertion order. A query selects rows of the
  list; \<^verbatim>\<open>.first()\<close> is the first selected row, and an assignment to an attribute
  of a selected row changes that row where it stands. Time stamps are readings of the
  database server's clock, which every handler takes as \<open>now\<close>. The unique columns
  (username, email, room name) are the ones the handlers test before they insert, so
  with one request at a time a commit does not fail on them. A string is a text value
  that the store holds; a Python str that the database driver refuses to send is
  outside the model.
\<close>

type_synonym timestamp = nat

record User =
  u_id :: int
  u_username :: string
  u_email :: string
  u_hashed_password :: string
  u_is_active :: bool
  u_created_at :: timestamp

record Room =
  r_id :: int
  r_name :: string
  r_display_name :: string
  r_description :: "string option"
  r_creator_id :: int
  r_is_active :: bool
  r_max_participants :: int
  r_created_at :: timestamp

record RoomMembership =
  m_id :: int
  m_user_id :: int
  m_room_id :: int
  m_joined_at :: timestamp
  m_left_at :: "timestamp option"
  m_is_active :: bool

record database =
  users :: "User list"
  rooms :: "Room list"
  room_memberships :: "RoomMembership list"

text \<open>
  The integer primary key of a new row: the next value of the table's sequence, which
  is one more than the largest key handed out (rows are never removed).
\<close>

definition next_id :: "int list \<Rightarrow> int" where
  "next_id ids = fold max ids 0 + 1"

text \<open>An attribute assignment on the row that \<^verbatim>\<open>.first()\<close> returned.\<close>

fun update_first :: "('a \<Rightarrow> bool) \<Rightarrow> ('a \<Rightarrow> 'a) \<Rightarrow> 'a list \<Rightarrow> 'a list" where
  "update_first P f [] = []"
| "update_first P f (x # xs) = (if P x then f x # xs else x # update_first P f xs)"

section \<open>Request and response bodies (schemas.py)\<close>

record UserCreate =
  uc_username :: string
  uc_email :: string
  uc_password :: string

record UserResponse =
  ur_id :: int
  ur_username :: string
  ur_email :: string
  ur_is_active :: bool
  ur_created_at :: timestamp

record RoomCreate =
  rc_name :: string
  rc_display_name :: string
  rc_description :: "string option"
  rc_max_participants :: "int option"

record RoomResponse =
  rr_id :: int
  rr_name :: string
  rr_display_name :: string
  rr_description :: "string option"
  rr_creator_id :: int
  rr_is_active :: bool
  rr_max_participants :: int
  rr_created_at :: timestamp
  rr_participant_count :: nat

record RoomParticipant =
  rp_identity :: string
  rp_name :: string
  rp_metadata :: string
  rp_num_tracks :: nat
  rp_permission :: ParticipantPermission

record RoomWithParticipants = RoomResponse +
  rr_participants :: "RoomParticipant list"

record 'jwt TokenResponse =
  tr_token :: 'jwt
  tr_room_name :: string
  tr_participant_identity :: string
  tr_livekit_url :: string

section \<open>The request handlers (main.py)\<close>

text \<open>
  A handler takes the committed state of the store and returns the committed state
  after the request together with the answer: an \<^verbatim>\<open>HTTPException\<close> with its status
  code and detail, an exception that no handler catches, or the response body. The
  authenticated user that \<^verbatim>\<open>get_current_user\<close> resolves is the argument
  \<open>current_user\<close>; the password hash \<^verbatim>\<open>get_password_hash\<close> of the module
  \<^verbatim>\<open>auth\<close> is a parameter. Requests run one after the other.
\<close>

datatype request_error = HTTPException nat string | Unhandled string

type_synonym 'a answer = "database \<times> (request_error + 'a)"

definition register_user ::
  "(string \<Rightarrow> string) \<Rightarrow> timestamp \<Rightarrow> database \<Rightarrow> UserCreate \<Rightarrow> UserResponse answer"
where
  "register_user get_password_hash now db user =
     (case find (\<lambda>u. u_email u = uc_email user \<or> u_username u = uc_username user)
             (users db) of
        Some existing_user \<Rightarrow>
          (db, Inl (HTTPException 400 ''User with this email or username already exists''))
      | None \<Rightarrow>
          (let db_user =
                 \<lparr>u_id = next_id (map u_id (users db)), u_username = uc_username user,
                  u_email = uc_email user,
                  u_hashed_password = get_password_hash (uc_password user),
                  u_is_active = True, u_created_at = now\<rparr>
           in (db\<lparr>users := users db @ [db_user]\<rparr>,
               Inr \<lparr>ur_id = u_id db_user, ur_username = u_username db_user,
                    ur_email = u_email db_user, ur_is_active = u_is_active db_user,
                    ur_created_at = u_created_at db_user\<rparr>)))"

text \<open>
  \<^verbatim>\<open>create_room\<close>: the row is committed before the gateway is called. A
  \<^verbatim>\<open>max_participants\<close> of \<^verbatim>\<open>None\<close> leaves the column to its default of 50. The
  request body takes any Python int, the column does not: where the value is outside
  the range of the store's \<^verbatim>\<open>Integer\<close> column, \<^verbatim>\<open>db.commit()\<close> raises, no row is
  stored, the gateway is not called and the exception leaves the handler. The largest
  value of the column is the parameter \<open>integer_max\<close> (it depends on the database
  behind \<^verbatim>\<open>DATABASE_URL\<close>).
\<close>

definition fits_integer :: "int \<Rightarrow> int \<Rightarrow> bool" where
  "fits_integer integer_max n \<longleftrightarrow> - integer_max - 1 \<le> n \<and> n \<le> integer_max"

definition create_room ::
  "int \<Rightarrow> 'r platform \<Rightarrow> LiveKitService \<Rightarrow> timestamp \<Rightarrow> database \<Rightarrow> RoomCreate \<Rightarrow> User \<Rightarrow>
     RoomResponse answer"
where
  "create_room integer_max platform svc now db room current_user =
     (case find (\<lambda>r. r_name r = rc_name room) (rooms db) of
        Some existing_room \<Rightarrow>
          (db, Inl (HTTPException 400 ''Room with this name already exists''))
      | None \<Rightarrow>
          (let db_room =
                 \<lparr>r_id = next_id (map r_id (rooms db)), r_name = rc_name room,
                  r_display_name = rc_display_name room,
                  r_description = rc_description room,
                  r_creator_id = u_id current_user, r_is_active = True,
                  r_max_participants =
                    (case rc_max_participants room of None \<Rightarrow> 50 | Some n \<Rightarrow> n),
                  r_created_at = now\<rparr>
           in if \<not> fits_integer integer_max (r_max_participants db_room)
              then (db, Inl (Unhandled ''integer out of range''))
              else
                (let db' = db\<lparr>rooms := rooms db @ [db_room]\<rparr>
                 in case LiveKitService_create_room platform svc (rc_name room)
                           (rc_max_participants room) of
                      Raises e \<Rightarrow> (db', Inl (Unhandled e))
                    | Returns created \<Rightarrow>
                        (db', Inr \<lparr>rr_id = r_id db_room, rr_name = r_name db_room,
                                   rr_display_name = r_display_name db_room,
                                   rr_description = r_description db_room,
                                   rr_creator_id = r_creator_id db_room,
                                   rr_is_active = r_is_active db_room,
                                   rr_max_participants = r_max_participants db_room,
                                   rr_created_at = r_created_at db_room,
                                   rr_participant_count = 0\<rparr>))))"

definition list_rooms :: "database \<Rightarrow> User \<Rightarrow> RoomResponse list answer" where
  "list_rooms db current_user =
     (db, Inr (map (\<lambda>room.
        \<lparr>rr_id = r_id room, rr_name = r_name room, rr_display_name = r_display_name room,
         rr_description = r_description room, rr_creator_id = r_creator_id room,
         rr_is_active = r_is_active room, rr_max_participants = r_max_participants room,
         rr_created_at = r_created_at room,
         rr_participant_count =
           length (filter (\<lambda>m. m_room_id m = r_id room \<and> m_is_active m)
                     (room_memberships db))\<rparr>)
        (filter r_is_active (rooms db))))"

definition get_room_details ::
  "'r platform \<Rightarrow> LiveKitService \<Rightarrow> database \<Rightarrow> int \<Rightarrow> User \<Rightarrow> RoomWithParticipants answer"
where
  "get_room_details platform svc db room_id current_user =
     (case find (\<lambda>r. r_id r = room_id) (rooms db) of
        None \<Rightarrow> (db, Inl (HTTPException 404 ''Room not found''))
      | Some room \<Rightarrow>
          (case LiveKitService_get_room_info platform svc (r_name room) of
             Raises e \<Rightarrow> (db, Inl (Unhandled e))
           | Returns room_info \<Rightarrow>
               (let participants =
                      (case room_info of
                         None \<Rightarrow> []
                       | Some info \<Rightarrow>
                           if info_participants info = [] then []
                           else map (\<lambda>p.
                                  \<lparr>rp_identity = pi_identity p, rp_name = pi_name p,
                                   rp_metadata = pi_metadata p,
                                   rp_num_tracks = length (pi_tracks p),
                                   rp_permission =
                                     \<lparr>perm_can_publish = perm_can_publish (pi_permission p),
                                      perm_can_subscribe =
                                        perm_can_subscribe (pi_permission p),
                                      perm_can_publish_data =
                                        perm_can_publish_data (pi_permission p)\<rparr>\<rparr>)
                                  (info_participants info))
                in (db, Inr \<lparr>rr_id = r_id room, rr_name = r_name room,
                             rr_display_name = r_display_name room,
                             rr_description = r_description room,
                             rr_creator_id = r_creator_id room,
                             rr_is_active = r_is_active room,
                             rr_max_participants = r_max_participants room,
                             rr_created_at = r_created_at room,
                             rr_participant_count = length participants,
                             rr_participants = participants\<rparr>))))"

text \<open>
  \<^verbatim>\<open>join_room\<close>: the room is looked up by its id alone; a membership row is added
  and committed when the user has no active row for the room. The token is created
  after the commit, outside any \<^verbatim>\<open>try\<close>: where \<^verbatim>\<open>create_access_token\<close> raises, the
  exception leaves the handler and the committed row stays.
\<close>

definition join_room ::
  "(AccessToken \<Rightarrow> 'jwt) \<Rightarrow> LiveKitService \<Rightarrow> timestamp \<Rightarrow> database \<Rightarrow> int \<Rightarrow> User \<Rightarrow>
     'jwt TokenResponse answer"
where
  "join_room sign svc now db room_id current_user =
     (case find (\<lambda>r. r_id r = room_id) (rooms db) of
        None \<Rightarrow> (db, Inl (HTTPException 404 ''Room not found''))
      | Some room \<Rightarrow>
          (let existing_membership =
                 find (\<lambda>m. m_user_id m = u_id current_user \<and> m_room_id m = room_id \<and>
                            m_is_active m) (room_memberships db);
               db' = (case existing_membership of
                        Some m \<Rightarrow> db
                      | None \<Rightarrow>
                          db\<lparr>room_memberships := room_memberships db @
                            [\<lparr>m_id = next_id (map m_id (room_memberships db)),
                              m_user_id = u_id current_user, m_room_id = room_id,
                              m_joined_at = now, m_left_at = None, m_is_active = True\<rparr>]\<rparr>)
           in case create_access_token sign svc (r_name room)
                     (str (u_id current_user)) (Some (u_username current_user))
                     (Some (''user_id:'' @ str (u_id current_user))) of
                Inl (ValueError e) \<Rightarrow> (db', Inl (Unhandled e))
              | Inr token \<Rightarrow>
                  (db', Inr \<lparr>tr_token = token, tr_room_name = r_name room,
                             tr_participant_identity = str (u_id current_user),
                             tr_livekit_url = livekit_url svc\<rparr>)))"

text \<open>
  \<^verbatim>\<open>delete_room\<close>: both checks come before the first assignment; the room row and
  every membership row of the room are set inactive and committed, then the gateway is
  called.
\<close>

definition delete_room ::
  "'r platform \<Rightarrow> LiveKitService \<Rightarrow> database \<Rightarrow> int \<Rightarrow> User \<Rightarrow> string answer"
where
  "delete_room platform svc db room_id current_user =
     (case find (\<lambda>r. r_id r = room_id) (rooms db) of
        None \<Rightarrow> (db, Inl (HTTPException 404 ''Room not found''))
      | Some room \<Rightarrow>
          if r_creator_id room \<noteq> u_id current_user
          then (db, Inl (HTTPException 403 ''Only room creator can delete the room''))
          else
            (let db' = db\<lparr>rooms := update_first (\<lambda>r. r_id r = room_id)
                                      (\<lambda>r. r\<lparr>r_is_active := False\<rparr>) (rooms db),
                           room_memberships :=
                             map (\<lambda>m. if m_room_id m = room_id
                                       then m\<lparr>m_is_active := False\<rparr> else m)
                               (room_memberships db)\<rparr>
             in case LiveKitService_delete_room platform svc (r_name room) of
                  Raises e \<Rightarrow> (db', Inl (Unhandled e))
                | Returns ok \<Rightarrow> (db', Inr ''Room deleted successfully'')))"

section \<open>Notions used to state the properties\<close>

text \<open>
  A reference signer and verifier for the token: the signer hands out the token it was
  given, and the verifier returns its claims when the secret is the one it was built
  with. They stand for any pair in which the verifier inverts the signer.
\<close>

definition reference_sign :: "AccessToken \<Rightarrow> AccessToken" where
  "reference_sign t = t"

definition reference_verify :: "string \<Rightarrow> AccessToken \<Rightarrow> Claims option" where
  "reference_verify secret t =
     (if token_api_secret t = secret then Some (token_claims t) else None)"

text \<open>
  The claims set of a room-join grant: the identity, the name and the metadata as given,
  and a video grant for one room with the join, publish, subscribe and publish-data
  flags and none of the room-create, room-list and room-admin flags.
\<close>

definition join_claims ::
  "string \<Rightarrow> string \<Rightarrow> string option \<Rightarrow> string option \<Rightarrow> Claims"
where
  "join_claims room_name participant_identity participant_name metadata =
     \<lparr>claim_identity = Some participant_identity, claim_name = participant_name,
      claim_metadata = metadata,
      claim_video = Some
        \<lparr>grant_room_create = None, grant_room_list = None, grant_room_admin = None,
         grant_room_join = Some True, grant_room = Some room_name,
         grant_can_publish = Some True, grant_can_subscribe = Some True,
         grant_can_publish_data = Some True\<rparr>\<rparr>"

text \<open>One of the three configuration variables is not set, or is set to the empty string.\<close>

definition config_missing :: "environ \<Rightarrow> bool" where
  "config_missing environ =
     (environ ''LIVEKIT_API_KEY'' = None \<or> environ ''LIVEKIT_API_KEY'' = Some [] \<or>
      environ ''LIVEKIT_API_SECRET'' = None \<or> environ ''LIVEKIT_API_SECRET'' = Some [] \<or>
      environ ''LIVEKIT_URL'' = None \<or> environ ''LIVEKIT_URL'' = Some [])"

text \<open>The state that \<^verbatim>\<open>delete_room\<close> commits for a room it may delete.\<close>

definition soft_delete :: "int \<Rightarrow> database \<Rightarrow> database" where
  "soft_delete room_id db =
     db\<lparr>rooms := update_first (\<lambda>r. r_id r = room_id) (\<lambda>r. r\<lparr>r_is_active := False\<rparr>)
                   (rooms db),
        room_memberships :=
          map (\<lambda>m. if m_room_id m = room_id then m\<lparr>m_is_active := False\<rparr> else m)
            (room_memberships db)\<rparr>"

text \<open>
  The membership invariant: no two active rows have the same user and room. The active
  rows of one user in one room, and the number of active rows of a room (the
  \<^verbatim>\<open>participant_count\<close> that \<^verbatim>\<open>list_rooms\<close> reports).
\<close>

definition one_active_per_pair :: "database \<Rightarrow> bool" where
  "one_active_per_pair db =
     distinct (map (\<lambda>m. (m_user_id m, m_room_id m))
                 (filter m_is_active (room_memberships db)))"

definition active_rows :: "database \<Rightarrow> int \<Rightarrow> int \<Rightarrow> RoomMembership list" where
  "active_rows db user_id room_id =
     filter (\<lambda>m. m_user_id m = user_id \<and> m_room_id m = room_id \<and> m_is_active m)
       (room_memberships db)"

definition participant_count :: "database \<Rightarrow> int \<Rightarrow> nat" where
  "participant_count db room_id =
     length (filter (\<lambda>m. m_room_id m = room_id \<and> m_is_active m) (room_memberships db))"

text \<open>The rows the handlers insert and the bodies they answer with.\<close>

definition new_membership :: "database \<Rightarrow> timestamp \<Rightarrow> int \<Rightarrow> int \<Rightarrow> RoomMembership" where
  "new_membership db now user_id room_id =
     \<lparr>m_id = next_id (map m_id (room_memberships db)), m_user_id = user_id,
      m_room_id = room_id, m_joined_at = now, m_left_at = None, m_is_active = True\<rparr>"

text \<open>
  The token that \<^verbatim>\<open>create_access_token\<close> builds before it is signed: the key and
  the secret of the service, and the join claims in which a name or metadata that is
  \<^verbatim>\<open>None\<close> or empty is left out.
\<close>

definition join_token ::
  "LiveKitService \<Rightarrow> string \<Rightarrow> string \<Rightarrow> string option \<Rightarrow> string option \<Rightarrow> AccessToken"
where
  "join_token svc room_name participant_identity participant_name metadata =
     \<lparr>token_api_key = api_key svc, token_api_secret = api_secret svc,
      token_claims =
        join_claims room_name participant_identity
          (if truthy participant_name then participant_name else None)
          (if truthy metadata then metadata else None)\<rparr>"

definition join_response ::
  "(AccessToken \<Rightarrow> 'jwt) \<Rightarrow> LiveKitService \<Rightarrow> Room \<Rightarrow> User \<Rightarrow> 'jwt TokenResponse"
where
  "join_response sign svc room u =
     \<lparr>tr_token = sign (join_token svc (r_name room) (str (u_id u))
                         (Some (u_username u)) (Some (''user_id:'' @ str (u_id u)))),
      tr_room_name = r_name room, tr_participant_identity = str (u_id u),
      tr_livekit_url = livekit_url svc\<rparr>"

text \<open>
  What a join answers once the membership row is committed: the token response, or for
  a room whose name is empty the \<^verbatim>\<open>ValueError\<close> of the signer, which no handler
  catches.
\<close>

definition join_answer ::
  "(AccessToken \<Rightarrow> 'jwt) \<Rightarrow> LiveKitService \<Rightarrow> Room \<Rightarrow> User \<Rightarrow>
     request_error + 'jwt TokenResponse"
where
  "join_answer sign svc room u =
     (if r_name room = []
      then Inl (Unhandled ''identity and room must be set when joining a room'')
      else Inr (join_response sign svc room u))"

definition new_user :: "(string \<Rightarrow> string) \<Rightarrow> timestamp \<Rightarrow> database \<Rightarrow> UserCreate \<Rightarrow> User" where
  "new_user get_password_hash now db req =
     \<lparr>u_id = next_id (map u_id (users db)), u_username = uc_username req,
      u_email = uc_email req, u_hashed_password = get_password_hash (uc_password req),
      u_is_active = True, u_created_at = now\<rparr>"

definition accounts_like :: "database \<Rightarrow> UserCreate \<Rightarrow> User list" where
  "accounts_like db req =
     filter (\<lambda>u. u_email u = uc_email req \<or> u_username u = uc_username req) (users db)"

definition new_room :: "timestamp \<Rightarrow> database \<Rightarrow> RoomCreate \<Rightarrow> User \<Rightarrow> Room" where
  "new_room now db req u =
     \<lparr>r_id = next_id (map r_id (rooms db)), r_name = rc_name req,
      r_display_name = rc_display_name req, r_description = rc_description req,
      r_creator_id = u_id u, r_is_active = True,
      r_max_participants = (case rc_max_participants req of None \<Rightarrow> 50 | Some n \<Rightarrow> n),
      r_created_at = now\<rparr>"

definition room_response :: "Room \<Rightarrow> nat \<Rightarrow> RoomResponse" where
  "room_response room n =
     \<lparr>rr_id = r_id room, rr_name = r_name room, rr_display_name = r_display_name room,
      rr_description = r_description room, rr_creator_id = r_creator_id room,
      rr_is_active = r_is_active room, rr_max_participants = r_max_participants room,
      rr_created_at = r_created_at room, rr_participant_count = n\<rparr>"

definition room_without_participants :: "Room \<Rightarrow> RoomWithParticipants" where
  "room_without_participants room =
     \<lparr>rr_id = r_id room, rr_name = r_name room, rr_display_name = r_display_name room,
      rr_description = r_description room, rr_creator_id = r_creator_id room,
      rr_is_active = r_is_active room, rr_max_participants = r_max_participants room,
      rr_created_at = r_created_at room, rr_participant_count = 0, rr_participants = []\<rparr>"

subsection \<open>A small deployment\<close>

text \<open>
  Two users, one room of capacity one that alice created and is in, the same store
  after alice has deleted the room, and a platform that cannot be reached.
\<close>

definition example_service :: LiveKitService where
  "example_service =
     \<lparr>api_key = ''key'', api_secret = ''secret'', livekit_url = ''wss://lk.example''\<rparr>"

definition env_complete :: environ where
  "env_complete =
     [''LIVEKIT_API_KEY'' \<mapsto> ''key'', ''LIVEKIT_API_SECRET'' \<mapsto> ''secret'',
      ''LIVEKIT_URL'' \<mapsto> ''wss://lk.example'']"

definition env_empty_key :: environ where
  "env_empty_key =
     [''LIVEKIT_API_KEY'' \<mapsto> [], ''LIVEKIT_API_SECRET'' \<mapsto> ''secret'',
      ''LIVEKIT_URL'' \<mapsto> ''wss://lk.example'']"

definition alice :: User where
  "alice = \<lparr>u_id = 1, u_username = ''alice'', u_email = ''alice@example.org'',
            u_hashed_password = ''h1'', u_is_active = True, u_created_at = 1\<rparr>"

definition bob :: User where
  "bob = \<lparr>u_id = 2, u_username = ''bob'', u_email = ''bob@example.org'',
          u_hashed_password = ''h2'', u_is_active = True, u_created_at = 2\<rparr>"

definition standup :: Room where
  "standup = \<lparr>r_id = 1, r_name = ''standup'', r_display_name = ''Standup'',
              r_description = None, r_creator_id = 1, r_is_active = True,
              r_max_participants = 1, r_created_at = 3\<rparr>"

definition alice_in_standup :: RoomMembership where
  "alice_in_standup = \<lparr>m_id = 1, m_user_id = 1, m_room_id = 1, m_joined_at = 4,
                       m_left_at = None, m_is_active = True\<rparr>"

definition example_db :: database where
  "example_db = \<lparr>users = [alice, bob], rooms = [standup],
                 room_memberships = [alice_in_standup]\<rparr>"

definition deleted_db :: database where
  "deleted_db = \<lparr>users = [alice, bob], rooms = [standup\<lparr>r_is_active := False\<rparr>],
                 room_memberships = [alice_in_standup\<lparr>m_is_active := False\<rparr>]\<rparr>"

definition unreachable_platform :: "unit platform" where
  "unreachable_platform uri k s = Raises ''connection refused''"

text \<open>
  A store with more in it: bob has left standup (an inactive row), and is active in a
  second room, planning, that he created.
\<close>

definition bob_left_standup :: RoomMembership where
  "bob_left_standup = \<lparr>m_id = 2, m_user_id = 2, m_room_id = 1, m_joined_at = 5,
                       m_left_at = Some 6, m_is_active = False\<rparr>"

definition planning :: Room where
  "planning = \<lparr>r_id = 2, r_name = ''planning'', r_display_name = ''Planning'',
               r_description = None, r_creator_id = 2, r_is_active = True,
               r_max_participants = 50, r_created_at = 7\<rparr>"

definition bob_in_planning :: RoomMembership where
  "bob_in_planning = \<lparr>m_id = 3, m_user_id = 2, m_room_id = 2, m_joined_at = 8,
                      m_left_at = None, m_is_active = True\<rparr>"

definition busy_db :: database where
  "busy_db = \<lparr>users = [alice, bob], rooms = [standup, planning],
              room_memberships = [alice_in_standup, bob_left_standup, bob_in_planning]\<rparr>"

text \<open>
  A store whose only room has the empty name, which the body of \<^verbatim>\<open>POST /rooms\<close>
  allows; the room is active and nobody is in it.
\<close>

definition nameless :: Room where
  "nameless = \<lparr>r_id = 1, r_name = [], r_display_name = ''No name'',
               r_description = None, r_creator_id = 1, r_is_active = True,
               r_max_participants = 50, r_created_at = 3\<rparr>"

definition nameless_db :: database where
  "nameless_db = \<lparr>users = [alice, bob], rooms = [nameless], room_memberships = []\<rparr>"

definition carol_request :: UserCreate where
  "carol_request =
     \<lparr>uc_username = ''carol'', uc_email = ''carol@example.org'', uc_password = ''pw''\<rparr>"

definition carol_same_email :: UserCreate where
  "carol_same_email =
     \<lparr>uc_username = ''carol2'', uc_email = ''carol@example.org'', uc_password = ''pw2''\<rparr>"

definition alice_same_username :: UserCreate where
  "alice_same_username =
     \<lparr>uc_username = ''alice'', uc_email = ''other@example.org'', uc_password = ''pw3''\<rparr>"

definition standup_again :: RoomCreate where
  "standup_again =
     \<lparr>rc_name = ''standup'', rc_display_name = ''Standup 2'', rc_description = None,
      rc_max_participants = Some 10\<rparr>"

definition retro :: RoomCreate where
  "retro =
     \<lparr>rc_name = ''retro'', rc_display_name = ''Retro'', rc_description = Some ''weekly'',
      rc_max_participants = None\<rparr>"

section \<open>The room-join grant\<close>

lemmas builder_defs = AccessToken_new_def with_identity_def with_name_def with_metadata_def
  with_grants_def VideoGrants_none_def

lemmas example_defs = example_service_def alice_def bob_def standup_def alice_in_standup_def
  example_db_def deleted_db_def unreachable_platform_def

lemma truthy_iff: "truthy v \<longleftrightarrow> v \<noteq> None \<and> v \<noteq> Some []"
  by (cases v) (simp_all add: truthy_def)

lemma digits_not_empty: "digits n \<noteq> []"
  by (subst digits.simps) simp

lemma str_not_empty: "str i \<noteq> []"
  by (simp add: str_def digits_not_empty)

lemma str_examples: "str 1 = ''1''" "str 2 = ''2''" "str 120 = ''120''" "str (- 7) = ''-7''"
  by (simp_all add: str_def digits.simps)

lemma http_uri_example: "http_uri example_service = ''https://lk.example''"
  by (simp add: http_uri_def example_service_def)

text \<open>
  The token that reaches \<^verbatim>\<open>to_jwt\<close> is \<open>join_token\<close>, whatever the arguments; the
  library's check then decides between the \<^verbatim>\<open>ValueError\<close> and the signed token.
\<close>

lemma create_access_token_to_jwt:
  "create_access_token sign svc R I n m = to_jwt sign (join_token svc R I n m)"
  by (simp add: create_access_token_def builder_defs join_token_def join_claims_def
        truthy_def Let_def split: option.splits)

lemma to_jwt_join_token:
  "to_jwt sign (join_token svc R I n m) =
     (if R = [] \<or> I = []
      then Inl (ValueError ''identity and room must be set when joining a room'')
      else Inr (sign (join_token svc R I n m)))"
  by (auto simp: to_jwt_def join_token_def join_claims_def truthy_def)

lemma create_access_token_result:
  "create_access_token sign svc R I n m =
     (if R = [] \<or> I = []
      then Inl (ValueError ''identity and room must be set when joining a room'')
      else Inr (sign (join_token svc R I n m)))"
  by (simp only: create_access_token_to_jwt to_jwt_join_token)

text \<open>
  Claim C1, as amended. Let the verifier invert the signature under the token's
  secret. For every room name \<open>R\<close> and identity \<open>I\<close> that are not empty, and every
  optional name and metadata, \<open>create_access_token\<close> returns a token that decodes
  under the service's secret to exactly: the identity \<open>I\<close>; the name and the metadata
  when they are given and not empty, and no name or metadata otherwise; and a video
  grant for room \<open>R\<close> with room\_join, can\_publish, can\_subscribe and
  can\_publish\_data set and none of room\_create, room\_list, room\_admin. Where \<open>R\<close>
  or \<open>I\<close> is empty it returns no token and raises \<open>ValueError\<close>.
\<close>

theorem create_access_token_claims:
  assumes "\<forall>t. verify (token_api_secret t) (sign t) = Some (token_claims t)"
  shows "(R \<noteq> [] \<and> I \<noteq> [] \<longrightarrow>
            (\<exists>tok. create_access_token sign svc R I n m = Inr tok \<and>
               verify (api_secret svc) tok =
                 Some (join_claims R I (if truthy n then n else None)
                         (if truthy m then m else None)))) \<and>
         (R = [] \<or> I = [] \<longrightarrow>
            create_access_token sign svc R I n m =
              Inl (ValueError ''identity and room must be set when joining a room''))"
proof -
  let ?t = "join_token svc R I n m"
  from assms have "verify (token_api_secret ?t) (sign ?t) = Some (token_claims ?t)"
    by (rule spec)
  then have "verify (api_secret svc) (sign ?t) =
      Some (join_claims R I (if truthy n then n else None) (if truthy m then m else None))"
    by (simp add: join_token_def)
  then show ?thesis
    by (simp add: create_access_token_result)
qed

text \<open>
  The amended claim at the token that alice gets for the room standup, and at a request
  with no room name.
\<close>

theorem create_access_token_claims_witness:
  "(\<forall>t. reference_verify (token_api_secret t) (reference_sign t) = Some (token_claims t)) \<and>
   (\<exists>tok. create_access_token reference_sign example_service ''standup'' ''1''
            (Some ''alice'') (Some ''user_id:1'') = Inr tok \<and>
      reference_verify ''secret'' tok =
        Some (join_claims ''standup'' ''1'' (Some ''alice'') (Some ''user_id:1''))) \<and>
   create_access_token reference_sign example_service [] ''1''
       (Some ''alice'') (Some ''user_id:1'') =
     Inl (ValueError ''identity and room must be set when joining a room'')"
proof -
  have h: "\<forall>t. reference_verify (token_api_secret t) (reference_sign t) =
               Some (token_claims t)"
    by (simp add: reference_verify_def reference_sign_def)
  note full = create_access_token_claims [of reference_verify reference_sign "''standup''"
      "''1''" example_service "Some ''alice''" "Some ''user_id:1''", OF h]
  note none = create_access_token_claims [of reference_verify reference_sign "[]"
      "''1''" example_service "Some ''alice''" "Some ''user_id:1''", OF h]
  from full have
    "\<exists>tok. create_access_token reference_sign example_service ''standup'' ''1''
            (Some ''alice'') (Some ''user_id:1'') = Inr tok \<and>
      reference_verify ''secret'' tok =
        Some (join_claims ''standup'' ''1'' (Some ''alice'') (Some ''user_id:1''))"
    by (simp add: truthy_def example_service_def)
  moreover from none have
    "create_access_token reference_sign example_service [] ''1''
       (Some ''alice'') (Some ''user_id:1'') =
     Inl (ValueError ''identity and room must be set when joining a room'')"
    by simp
  ultimately show ?thesis
    using h by blast
qed

text \<open>
  Claim C1 as it is written fails in two ways. For a name that is supplied and empty
  the decoded claims carry no name, where the claim has the supplied one. For an empty
  room name, and for an empty identity, no token is returned at all.
\<close>

theorem create_access_token_empty_name_counterexample:
  "create_access_token reference_sign example_service ''standup'' ''1'' (Some []) None =
     Inr (join_token example_service ''standup'' ''1'' None None) \<and>
   reference_verify ''secret'' (join_token example_service ''standup'' ''1'' None None) =
     Some (join_claims ''standup'' ''1'' None None) \<and>
   join_claims ''standup'' ''1'' None None \<noteq> join_claims ''standup'' ''1'' (Some []) None \<and>
   create_access_token reference_sign example_service [] ''1'' None None =
     Inl (ValueError ''identity and room must be set when joining a room'') \<and>
   create_access_token reference_sign example_service ''standup'' [] None None =
     Inl (ValueError ''identity and room must be set when joining a room'')"
  by (simp add: create_access_token_result join_token_def join_claims_def
        reference_verify_def reference_sign_def example_service_def truthy_def)

section \<open>Construction of the signer\<close>

lemma LiveKitService_init_Inl:
  "(\<exists>e. LiveKitService_init environ = Inl e) \<longleftrightarrow> config_missing environ"
  by (auto simp: LiveKitService_init_def config_missing_def truthy_iff Let_def
        split: option.splits)

lemma LiveKitService_init_Inr:
  "LiveKitService_init environ = Inr svc \<Longrightarrow>
     environ ''LIVEKIT_API_KEY'' = Some (api_key svc) \<and> api_key svc \<noteq> [] \<and>
     environ ''LIVEKIT_API_SECRET'' = Some (api_secret svc) \<and> api_secret svc \<noteq> [] \<and>
     environ ''LIVEKIT_URL'' = Some (livekit_url svc) \<and> livekit_url svc \<noteq> []"
  by (auto simp: LiveKitService_init_def truthy_iff Let_def split: option.splits if_splits)

lemma create_access_token_signed:
  "R \<noteq> [] \<Longrightarrow> I \<noteq> [] \<Longrightarrow>
     \<exists>t. create_access_token sign svc R I n m = Inr (sign t) \<and>
         token_api_key t = api_key svc \<and> token_api_secret t = api_secret svc"
  by (auto simp: create_access_token_result join_token_def)

lemma create_access_token_raises:
  "R = [] \<or> I = [] \<Longrightarrow>
     create_access_token sign svc R I n m =
       Inl (ValueError ''identity and room must be set when joining a room'')"
  by (simp add: create_access_token_result)

text \<open>
  Claim C7, as amended. Loading the module raises if and only if one of the three
  variables LIVEKIT\_API\_KEY, LIVEKIT\_API\_SECRET, LIVEKIT\_URL is not set or is set to
  the empty string. When it does not raise, the service holds the three values of the
  environment, none of them empty, and token creation fails exactly where the room
  name or the identity is empty: there \<open>create_access_token\<close> raises \<open>ValueError\<close>,
  everywhere else it returns the signature of a token built with the key and the
  secret of the service.
\<close>

theorem signer_construction:
  "((\<exists>e. livekit_service environ = Inl e) \<longleftrightarrow> config_missing environ) \<and>
   (\<forall>svc. livekit_service environ = Inr svc \<longrightarrow>
      environ ''LIVEKIT_API_KEY'' = Some (api_key svc) \<and> api_key svc \<noteq> [] \<and>
      environ ''LIVEKIT_API_SECRET'' = Some (api_secret svc) \<and> api_secret svc \<noteq> [] \<and>
      environ ''LIVEKIT_URL'' = Some (livekit_url svc) \<and> livekit_url svc \<noteq> [] \<and>
      (\<forall>sign R I n m.
         (R \<noteq> [] \<and> I \<noteq> [] \<longrightarrow>
            (\<exists>t. create_access_token sign svc R I n m = Inr (sign t) \<and>
               token_api_key t = api_key svc \<and> token_api_secret t = api_secret svc)) \<and>
         (R = [] \<or> I = [] \<longrightarrow>
            create_access_token sign svc R I n m =
              Inl (ValueError ''identity and room must be set when joining a room''))))"
proof -
  have raise_iff: "(\<exists>e. livekit_service environ = Inl e) \<longleftrightarrow> config_missing environ"
    unfolding livekit_service_def by (rule LiveKitService_init_Inl)
  have tokens: "(R \<noteq> [] \<and> I \<noteq> [] \<longrightarrow>
            (\<exists>t. create_access_token sign svc R I n m = Inr (sign t) \<and>
               token_api_key t = api_key svc \<and> token_api_secret t = api_secret svc)) \<and>
         (R = [] \<or> I = [] \<longrightarrow>
            create_access_token sign svc R I n m =
              Inl (ValueError ''identity and room must be set when joining a room''))"
    for sign :: "AccessToken \<Rightarrow> 'a" and svc R I n m
    using create_access_token_signed [of R I sign svc n m]
      create_access_token_raises [of R I sign svc n m]
    by blast
  have built: "environ ''LIVEKIT_API_KEY'' = Some (api_key svc) \<and> api_key svc \<noteq> [] \<and>
      environ ''LIVEKIT_API_SECRET'' = Some (api_secret svc) \<and> api_secret svc \<noteq> [] \<and>
      environ ''LIVEKIT_URL'' = Some (livekit_url svc) \<and> livekit_url svc \<noteq> []"
    if "livekit_service environ = Inr svc" for svc
    using that unfolding livekit_service_def by (rule LiveKitService_init_Inr)
  from raise_iff tokens built show ?thesis
    by blast
qed

text \<open>
  The amended claim at an environment that sets all three variables: the service is
  built, it signs a token for standup and raises for the empty room name.
\<close>

theorem signer_construction_witness:
  "livekit_service env_complete = Inr example_service \<and>
   \<not> config_missing env_complete \<and>
   (\<exists>t. create_access_token reference_sign example_service ''standup'' ''1'' None None =
          Inr (reference_sign t) \<and>
        token_api_key t = ''key'' \<and> token_api_secret t = ''secret'') \<and>
   create_access_token reference_sign example_service [] ''1'' None None =
     Inl (ValueError ''identity and room must be set when joining a room'')"
proof -
  have a: "livekit_service env_complete = Inr example_service"
    by (simp add: livekit_service_def LiveKitService_init_def env_complete_def truthy_def
          example_service_def)
  have b: "\<not> config_missing env_complete"
    using signer_construction [of env_complete] a by auto
  have ne: "''standup'' \<noteq> [] \<and> ''1'' \<noteq> []"
    by simp
  from signer_construction [of env_complete] a ne
  have "\<exists>t. create_access_token reference_sign example_service ''standup'' ''1'' None None =
            Inr (reference_sign t) \<and>
          token_api_key t = api_key example_service \<and>
          token_api_secret t = api_secret example_service"
    by blast
  then have c: "\<exists>t. create_access_token reference_sign example_service ''standup'' ''1''
            None None = Inr (reference_sign t) \<and>
          token_api_key t = ''key'' \<and> token_api_secret t = ''secret''"
    by (simp add: example_service_def)
  from signer_construction [of env_complete] a
  have d: "create_access_token reference_sign example_service [] ''1'' None None =
     Inl (ValueError ''identity and room must be set when joining a room'')"
    by blast
  from a b c d show ?thesis
    by blast
qed

text \<open>
  Claim C7 as it is written fails in two ways. Where a variable is present and empty,
  all three variables are set, none is absent, and the constructor raises. And on the
  service built from a complete environment, token creation fails for the empty room
  name.
\<close>

theorem signer_construction_counterexample:
  "env_empty_key ''LIVEKIT_API_KEY'' = Some [] \<and>
   env_empty_key ''LIVEKIT_API_SECRET'' = Some ''secret'' \<and>
   env_empty_key ''LIVEKIT_URL'' = Some ''wss://lk.example'' \<and>
   livekit_service env_empty_key = Inl (ValueError
     ''LiveKit configuration is incomplete. Please check your environment variables.'') \<and>
   livekit_service env_complete = Inr example_service \<and>
   create_access_token reference_sign example_service [] ''1'' (Some ''alice'') None =
     Inl (ValueError ''identity and room must be set when joining a room'')"
  by (simp add: livekit_service_def LiveKitService_init_def env_empty_key_def
        env_complete_def truthy_def example_service_def create_access_token_result)

section \<open>Queries and updates of the store\<close>

lemma find_holds: "find P xs = Some x \<Longrightarrow> P x"
  by (induction xs) (auto split: if_splits)

lemma find_member: "find P xs = Some x \<Longrightarrow> x \<in> set xs"
  by (induction xs) (auto split: if_splits)

lemma find_exists: "x \<in> set xs \<Longrightarrow> P x \<Longrightarrow> \<exists>y. find P xs = Some y"
  by (induction xs) auto

lemma find_None_filter: "find P xs = None \<longleftrightarrow> filter P xs = []"
  by (induction xs) auto

lemma find_update_first:
  "find P xs = Some r \<Longrightarrow> P (f r) \<Longrightarrow> find P (update_first P f xs) = Some (f r)"
  by (induction xs) (auto split: if_splits)

lemma update_first_idem:
  assumes "\<And>x. P x \<Longrightarrow> P (f x)" and "\<And>x. P x \<Longrightarrow> f (f x) = f x"
  shows "update_first P f (update_first P f xs) = update_first P f xs"
  by (induction xs) (simp_all add: assms)

section \<open>The gateway never raises\<close>

lemma gateway_info_returns:
  "\<exists>v. LiveKitService_get_room_info platform svc n = Returns v"
  by (auto simp: LiveKitService_get_room_info_def split: outcome.splits)

lemma gateway_create_returns:
  "\<exists>v. LiveKitService_create_room platform svc n mp = Returns v"
  by (auto simp: LiveKitService_create_room_def split: outcome.splits)

lemma gateway_delete_returns:
  "\<exists>ok. LiveKitService_delete_room platform svc n = Returns ok"
  by (auto simp: LiveKitService_delete_room_def split: outcome.splits)

lemma gateway_connect_fails:
  assumes "platform (http_uri svc) (api_key svc) (api_secret svc) = Raises e"
  shows "LiveKitService_get_room_info platform svc n = Returns None"
    and "LiveKitService_create_room platform svc n mp = Returns None"
    and "LiveKitService_delete_room platform svc n = Returns False"
  using assms
  by (simp_all add: LiveKitService_get_room_info_def LiveKitService_create_room_def
        LiveKitService_delete_room_def)

lemma gateway_call_fails:
  assumes "platform (http_uri svc) (api_key svc) (api_secret svc) = Returns c"
  shows "rs_get_room c n = Raises e \<Longrightarrow>
           LiveKitService_get_room_info platform svc n = Returns None"
    and "rs_list_participants c n = Raises e \<Longrightarrow>
           LiveKitService_get_room_info platform svc n = Returns None"
    and "rs_create_room c n mp = Raises e \<Longrightarrow>
           LiveKitService_create_room platform svc n mp = Returns None"
    and "rs_delete_room c n = Raises e \<Longrightarrow>
           LiveKitService_delete_room platform svc n = Returns False"
  using assms
  by (simp_all add: LiveKitService_get_room_info_def LiveKitService_create_room_def
        LiveKitService_delete_room_def split: outcome.splits)

section \<open>Deleting a room\<close>

lemma delete_room_creator:
  assumes "find (\<lambda>r. r_id r = room_id) (rooms db) = Some r"
    and "r_creator_id r = u_id u"
  shows "delete_room platform svc db room_id u =
           (db\<lparr>rooms := update_first (\<lambda>r. r_id r = room_id) (\<lambda>r. r\<lparr>r_is_active := False\<rparr>)
                           (rooms db),
               room_memberships :=
                 map (\<lambda>m. if m_room_id m = room_id then m\<lparr>m_is_active := False\<rparr> else m)
                   (room_memberships db)\<rparr>,
            Inr ''Room deleted successfully'')"
proof -
  obtain ok where "LiveKitService_delete_room platform svc (r_name r) = Returns ok"
    using gateway_delete_returns by blast
  with assms show ?thesis
    by (simp add: delete_room_def Let_def)
qed

lemma deactivate_twice:
  "map (\<lambda>m. if m_room_id m = room_id then m\<lparr>m_is_active := False\<rparr> else m)
     (map (\<lambda>m. if m_room_id m = room_id then m\<lparr>m_is_active := False\<rparr> else m) ys) =
   map (\<lambda>m. if m_room_id m = room_id then m\<lparr>m_is_active := False\<rparr> else m) ys"
  by (induction ys) simp_all

lemma soft_delete_idem: "soft_delete room_id (soft_delete room_id db) = soft_delete room_id db"
proof (rule database.equality)
  show "users (soft_delete room_id (soft_delete room_id db)) = users (soft_delete room_id db)"
    by (simp add: soft_delete_def)
  have "update_first (\<lambda>r. r_id r = room_id) (\<lambda>r. r\<lparr>r_is_active := False\<rparr>)
          (update_first (\<lambda>r. r_id r = room_id) (\<lambda>r. r\<lparr>r_is_active := False\<rparr>) (rooms db)) =
        update_first (\<lambda>r. r_id r = room_id) (\<lambda>r. r\<lparr>r_is_active := False\<rparr>) (rooms db)"
    by (rule update_first_idem) simp_all
  then show "rooms (soft_delete room_id (soft_delete room_id db)) =
               rooms (soft_delete room_id db)"
    by (simp add: soft_delete_def)
  show "room_memberships (soft_delete room_id (soft_delete room_id db)) =
          room_memberships (soft_delete room_id db)"
    using deactivate_twice [of room_id "room_memberships db"]
    by (simp add: soft_delete_def del: map_map)
  show "database.more (soft_delete room_id (soft_delete room_id db)) =
          database.more (soft_delete room_id db)"
    by (simp add: soft_delete_def)
qed

lemma soft_delete_find:
  assumes "find (\<lambda>r. r_id r = room_id) (rooms db) = Some r"
  shows "find (\<lambda>r. r_id r = room_id) (rooms (soft_delete room_id db)) =
           Some (r\<lparr>r_is_active := False\<rparr>)"
proof -
  from assms have "r_id r = room_id"
    by (rule find_holds)
  then have "r_id (r\<lparr>r_is_active := False\<rparr>) = room_id"
    by simp
  with assms have "find (\<lambda>r. r_id r = room_id)
      (update_first (\<lambda>r. r_id r = room_id) (\<lambda>r. r\<lparr>r_is_active := False\<rparr>) (rooms db)) =
      Some (r\<lparr>r_is_active := False\<rparr>)"
    by (rule find_update_first)
  then show ?thesis
    by (simp add: soft_delete_def)
qed

lemma deactivate_row:
  "m_room_id (if m_room_id x = room_id then x\<lparr>m_is_active := False\<rparr> else x) = room_id \<longrightarrow>
     \<not> m_is_active (if m_room_id x = room_id then x\<lparr>m_is_active := False\<rparr> else x)"
  by (cases "m_room_id x = room_id") simp_all

lemma soft_delete_rows:
  "\<forall>m \<in> set (room_memberships (soft_delete room_id db)).
     m_room_id m = room_id \<longrightarrow> \<not> m_is_active m"
proof
  fix m
  assume "m \<in> set (room_memberships (soft_delete room_id db))"
  then have "m \<in> (\<lambda>m. if m_room_id m = room_id then m\<lparr>m_is_active := False\<rparr> else m) `
                 set (room_memberships db)"
    by (simp add: soft_delete_def)
  then obtain x where
    m: "m = (if m_room_id x = room_id then x\<lparr>m_is_active := False\<rparr> else x)"
    by blast
  show "m_room_id m = room_id \<longrightarrow> \<not> m_is_active m"
    unfolding m by (rule deactivate_row)
qed

lemma soft_delete_example: "soft_delete 1 example_db = deleted_db"
  by (simp add: soft_delete_def example_defs)

lemma soft_delete_busy:
  "soft_delete 1 busy_db =
     \<lparr>users = [alice, bob], rooms = [standup\<lparr>r_is_active := False\<rparr>, planning],
      room_memberships =
        [alice_in_standup\<lparr>m_is_active := False\<rparr>, bob_left_standup, bob_in_planning]\<rparr>"
  by (simp add: soft_delete_def busy_db_def standup_def planning_def alice_in_standup_def
        bob_left_standup_def bob_in_planning_def)

text \<open>
  Claim C2. Let \<open>r\<close> be the room that \<open>room_id\<close> names and \<open>u\<close> its creator. Whatever
  the membership table holds and whatever the platform does, \<open>delete_room\<close> answers
  with success and commits this state: the users are as before; the room row is \<open>r\<close>
  with \<open>is_active\<close> false and every other room row is as before; the membership
  table is the table before, row by row, with \<open>is_active\<close> set to false on each row
  of the room (active or not before) and every row of another room untouched. So the
  room found afterwards is inactive and every membership row of the room is inactive.
  The same request on that state answers the same and leaves the state as it is.
\<close>

theorem delete_room_cascade:
  assumes "find (\<lambda>r. r_id r = room_id) (rooms db) = Some r"
    and "r_creator_id r = u_id u"
  shows "\<exists>db'. delete_room platform svc db room_id u =
                  (db', Inr ''Room deleted successfully'') \<and>
           users db' = users db \<and>
           rooms db' = update_first (\<lambda>r. r_id r = room_id) (\<lambda>r. r\<lparr>r_is_active := False\<rparr>)
                         (rooms db) \<and>
           room_memberships db' =
             map (\<lambda>m. if m_room_id m = room_id then m\<lparr>m_is_active := False\<rparr> else m)
               (room_memberships db) \<and>
           find (\<lambda>r. r_id r = room_id) (rooms db') = Some (r\<lparr>r_is_active := False\<rparr>) \<and>
           (\<forall>m \<in> set (room_memberships db'). m_room_id m = room_id \<longrightarrow> \<not> m_is_active m) \<and>
           delete_room platform' svc' db' room_id u =
             (db', Inr ''Room deleted successfully'')"
proof -
  let ?db' = "soft_delete room_id db"
  have first: "delete_room platform svc db room_id u =
      (?db', Inr ''Room deleted successfully'')"
    unfolding soft_delete_def using assms by (rule delete_room_creator)
  have same_users: "users ?db' = users db"
    by (simp add: soft_delete_def)
  have new_rooms: "rooms ?db' =
      update_first (\<lambda>r. r_id r = room_id) (\<lambda>r. r\<lparr>r_is_active := False\<rparr>) (rooms db)"
    by (simp add: soft_delete_def)
  have new_rows: "room_memberships ?db' =
      map (\<lambda>m. if m_room_id m = room_id then m\<lparr>m_is_active := False\<rparr> else m)
        (room_memberships db)"
    by (simp add: soft_delete_def)
  have found: "find (\<lambda>r. r_id r = room_id) (rooms ?db') = Some (r\<lparr>r_is_active := False\<rparr>)"
    using assms(1) by (rule soft_delete_find)
  have rows: "\<forall>m \<in> set (room_memberships ?db'). m_room_id m = room_id \<longrightarrow> \<not> m_is_active m"
    by (rule soft_delete_rows)
  have "delete_room platform' svc' ?db' room_id u =
          (soft_delete room_id ?db', Inr ''Room deleted successfully'')"
    unfolding soft_delete_def [of room_id "soft_delete room_id db"]
    using found by (rule delete_room_creator) (simp add: assms(2))
  then have again: "delete_room platform' svc' ?db' room_id u =
      (?db', Inr ''Room deleted successfully'')"
    by (simp only: soft_delete_idem)
  from first same_users new_rooms new_rows found rows again show ?thesis
    by blast
qed

text \<open>
  Alice deletes her room standup, with the platform out of reach both times. Her active
  row and bob's inactive row of standup are inactive afterwards, bob's row in planning
  and the room planning are as before, and a second delete changes nothing.
\<close>

theorem delete_room_cascade_witness:
  "find (\<lambda>r. r_id r = 1) (rooms busy_db) = Some standup \<and>
   r_creator_id standup = u_id alice \<and>
   delete_room unreachable_platform example_service busy_db 1 alice =
     (\<lparr>users = [alice, bob], rooms = [standup\<lparr>r_is_active := False\<rparr>, planning],
       room_memberships =
         [alice_in_standup\<lparr>m_is_active := False\<rparr>, bob_left_standup, bob_in_planning]\<rparr>,
      Inr ''Room deleted successfully'') \<and>
   m_is_active alice_in_standup \<and> \<not> m_is_active bob_left_standup \<and>
   m_is_active bob_in_planning \<and>
   delete_room unreachable_platform example_service
     \<lparr>users = [alice, bob], rooms = [standup\<lparr>r_is_active := False\<rparr>, planning],
       room_memberships =
         [alice_in_standup\<lparr>m_is_active := False\<rparr>, bob_left_standup, bob_in_planning]\<rparr>
     1 alice =
     (\<lparr>users = [alice, bob], rooms = [standup\<lparr>r_is_active := False\<rparr>, planning],
       room_memberships =
         [alice_in_standup\<lparr>m_is_active := False\<rparr>, bob_left_standup, bob_in_planning]\<rparr>,
      Inr ''Room deleted successfully'')"
proof -
  let ?after = "\<lparr>users = [alice, bob], rooms = [standup\<lparr>r_is_active := False\<rparr>, planning],
       room_memberships =
         [alice_in_standup\<lparr>m_is_active := False\<rparr>, bob_left_standup, bob_in_planning]\<rparr>"
  have a: "find (\<lambda>r. r_id r = 1) (rooms busy_db) = Some standup"
    by (simp add: busy_db_def standup_def)
  have b: "r_creator_id standup = u_id alice"
    by (simp add: example_defs)
  have c: "m_is_active alice_in_standup" "\<not> m_is_active bob_left_standup"
    "m_is_active bob_in_planning"
    by (simp_all add: alice_in_standup_def bob_left_standup_def bob_in_planning_def)
  from delete_room_cascade [OF a b, of unreachable_platform example_service
      unreachable_platform example_service]
  obtain db' where
    first: "delete_room unreachable_platform example_service busy_db 1 alice =
              (db', Inr ''Room deleted successfully'')"
    and us: "users db' = users busy_db"
    and rs: "rooms db' = update_first (\<lambda>r. r_id r = 1) (\<lambda>r. r\<lparr>r_is_active := False\<rparr>)
                          (rooms busy_db)"
    and ms: "room_memberships db' =
               map (\<lambda>m. if m_room_id m = 1 then m\<lparr>m_is_active := False\<rparr> else m)
                 (room_memberships busy_db)"
    and again: "delete_room unreachable_platform example_service db' 1 alice =
              (db', Inr ''Room deleted successfully'')"
    by blast
  have "db' = soft_delete 1 busy_db"
    by (rule database.equality) (simp_all add: us rs ms soft_delete_def)
  then have "db' = ?after"
    by (simp only: soft_delete_busy)
  with first again a b c show ?thesis
    by simp
qed

text \<open>
  Claim C5. Let \<open>r\<close> be the room that \<open>room_id\<close> names and \<open>b\<close> a user whose id is not
  the creator's. Then \<open>delete_room\<close> requested by \<open>b\<close> answers 403 and the committed
  state, the room row and every membership row with it, is the state before the
  request.
\<close>

theorem delete_room_forbidden:
  assumes "find (\<lambda>r. r_id r = room_id) (rooms db) = Some r"
    and "r_creator_id r \<noteq> u_id b"
  shows "delete_room platform svc db room_id b =
           (db, Inl (HTTPException 403 ''Only room creator can delete the room''))"
  using assms by (simp add: delete_room_def)

text \<open>Bob asks to delete the room that alice created.\<close>

theorem delete_room_forbidden_witness:
  "find (\<lambda>r. r_id r = 1) (rooms example_db) = Some standup \<and>
   r_creator_id standup \<noteq> u_id bob \<and>
   delete_room unreachable_platform example_service example_db 1 bob =
     (example_db, Inl (HTTPException 403 ''Only room creator can delete the room''))"
proof -
  have a: "find (\<lambda>r. r_id r = 1) (rooms example_db) = Some standup"
    by (simp add: example_defs)
  have b: "r_creator_id standup \<noteq> u_id bob"
    by (simp add: example_defs)
  from delete_room_forbidden [OF a b, of unreachable_platform example_service] a b
  show ?thesis by simp
qed

section \<open>Joining a room\<close>

lemma join_room_missing:
  "find (\<lambda>r. r_id r = room_id) (rooms db) = None \<Longrightarrow>
     join_room sign svc now db room_id u = (db, Inl (HTTPException 404 ''Room not found''))"
  by (simp add: join_room_def)

lemma join_room_member:
  assumes "find (\<lambda>r. r_id r = room_id) (rooms db) = Some r"
    and "active_rows db (u_id u) room_id \<noteq> []"
  shows "join_room sign svc now db room_id u = (db, join_answer sign svc r u)"
proof -
  from assms(2) obtain m where
    "find (\<lambda>m. m_user_id m = u_id u \<and> m_room_id m = room_id \<and> m_is_active m)
       (room_memberships db) = Some m"
    unfolding active_rows_def by (metis find_None_filter not_Some_eq)
  with assms(1) show ?thesis
    by (simp add: join_room_def create_access_token_result str_not_empty join_answer_def
          join_response_def Let_def)
qed

lemma join_room_newcomer:
  assumes "find (\<lambda>r. r_id r = room_id) (rooms db) = Some r"
    and "active_rows db (u_id u) room_id = []"
  shows "join_room sign svc now db room_id u =
           (db\<lparr>room_memberships :=
                 room_memberships db @ [new_membership db now (u_id u) room_id]\<rparr>,
            join_answer sign svc r u)"
proof -
  from assms(2) have
    "find (\<lambda>m. m_user_id m = u_id u \<and> m_room_id m = room_id \<and> m_is_active m)
       (room_memberships db) = None"
    unfolding active_rows_def by (simp add: find_None_filter)
  with assms(1) show ?thesis
    by (simp add: join_room_def create_access_token_result str_not_empty join_answer_def
          join_response_def new_membership_def Let_def)
qed

text \<open>The state that \<^verbatim>\<open>join_room\<close> commits, in every case.\<close>

lemma join_room_state:
  "fst (join_room sign svc now db room_id u) =
     (if find (\<lambda>r. r_id r = room_id) (rooms db) = None \<or>
         active_rows db (u_id u) room_id \<noteq> []
      then db
      else db\<lparr>room_memberships :=
                room_memberships db @ [new_membership db now (u_id u) room_id]\<rparr>)"
proof (cases "find (\<lambda>r. r_id r = room_id) (rooms db)")
  case None
  then show ?thesis by (simp add: join_room_missing)
next
  case (Some r)
  then show ?thesis
    by (cases "active_rows db (u_id u) room_id = []")
       (simp_all add: join_room_member join_room_newcomer)
qed

lemma join_room_found:
  assumes "find (\<lambda>r. r_id r = room_id) (rooms db) = Some r"
  shows "join_room sign svc now db room_id u =
           (fst (join_room sign svc now db room_id u), join_answer sign svc r u)"
  using assms
  by (cases "active_rows db (u_id u) room_id = []")
     (simp_all add: join_room_member join_room_newcomer)

lemma join_room_named:
  assumes "find (\<lambda>r. r_id r = room_id) (rooms db) = Some r" and "r_name r \<noteq> []"
  shows "join_room sign svc now db room_id u =
           (fst (join_room sign svc now db room_id u), Inr (join_response sign svc r u))"
  using join_room_found [OF assms(1), of sign svc now u] assms(2)
  by (simp add: join_answer_def)

lemma join_room_unnamed:
  assumes "find (\<lambda>r. r_id r = room_id) (rooms db) = Some r" and "r_name r = []"
  shows "join_room sign svc now db room_id u =
           (fst (join_room sign svc now db room_id u),
            Inl (Unhandled ''identity and room must be set when joining a room''))"
  using join_room_found [OF assms(1), of sign svc now u] assms(2)
  by (simp add: join_answer_def)

lemma active_rows_append:
  "active_rows (db\<lparr>room_memberships :=
       room_memberships db @ [new_membership db now user_id room_id]\<rparr>) user_id room_id =
     active_rows db user_id room_id @ [new_membership db now user_id room_id]"
  by (simp add: active_rows_def new_membership_def)

lemma participant_count_append:
  "participant_count (db\<lparr>room_memberships :=
       room_memberships db @ [new_membership db now user_id room_id]\<rparr>) room_id =
     participant_count db room_id + 1"
  by (simp add: participant_count_def new_membership_def)

lemma join_room_active_after:
  assumes "find (\<lambda>r. r_id r = room_id) (rooms db) = Some r"
  shows "active_rows (fst (join_room sign svc now db room_id u)) (u_id u) room_id \<noteq> []"
  using assms by (simp add: join_room_state active_rows_append)

lemma pair_not_active:
  "filter (\<lambda>m. m_user_id m = a \<and> m_room_id m = b \<and> m_is_active m) xs = [] \<Longrightarrow>
     (a, b) \<notin> set (map (\<lambda>m. (m_user_id m, m_room_id m)) (filter m_is_active xs))"
  by (induction xs) (auto split: if_splits)

lemma one_active_append:
  assumes "one_active_per_pair db" and "active_rows db user_id room_id = []"
  shows "one_active_per_pair (db\<lparr>room_memberships :=
           room_memberships db @ [new_membership db now user_id room_id]\<rparr>)"
  using assms pair_not_active [of user_id room_id "room_memberships db"]
  by (simp add: one_active_per_pair_def active_rows_def new_membership_def)

text \<open>Under the invariant a user has at most one active row in a room.\<close>

lemma one_active_count:
  "distinct (map (\<lambda>m. (m_user_id m, m_room_id m)) (filter m_is_active xs)) \<Longrightarrow>
     length (filter (\<lambda>m. m_user_id m = a \<and> m_room_id m = b \<and> m_is_active m) xs) \<le> 1"
proof (induction xs)
  case Nil
  then show ?case by simp
next
  case (Cons x xs)
  show ?case
  proof (cases "m_user_id x = a \<and> m_room_id x = b \<and> m_is_active x")
    case True
    with Cons.prems have "(a, b) \<notin> set (map (\<lambda>m. (m_user_id m, m_room_id m))
                                        (filter m_is_active xs))"
      by auto
    then have "filter (\<lambda>m. m_user_id m = a \<and> m_room_id m = b \<and> m_is_active m) xs = []"
      by (induction xs) (auto split: if_splits)
    with True show ?thesis by simp
  next
    case False
    with Cons show ?thesis by (auto split: if_splits)
  qed
qed

lemma join_room_twice:
  "fst (join_room sign' svc' now' (fst (join_room sign svc now db room_id u)) room_id u) =
     fst (join_room sign svc now db room_id u)"
proof -
  let ?db1 = "fst (join_room sign svc now db room_id u)"
  show ?thesis
  proof (cases "find (\<lambda>r. r_id r = room_id) (rooms db) = None \<or>
                active_rows db (u_id u) room_id \<noteq> []")
    case True
    then have "?db1 = db" by (simp add: join_room_state)
    with True show ?thesis by (simp add: join_room_state)
  next
    case False
    then have "active_rows ?db1 (u_id u) room_id \<noteq> []"
      by (simp add: join_room_state active_rows_append)
    then show ?thesis
      by (simp add: join_room_state [of sign' svc' now' ?db1])
  qed
qed

text \<open>
  Claim C3. With requests handled one after the other, \<open>join_room\<close> keeps the
  invariant that no user has two active rows in one room. When the user already has an
  active row for the room the committed state does not change: no row is inserted. A
  second join right after the first leaves the state of the first, in which the user
  has at most one active row for the room.
\<close>

theorem join_room_one_active:
  assumes "one_active_per_pair db"
  shows "one_active_per_pair (fst (join_room sign svc now db room_id u)) \<and>
         (active_rows db (u_id u) room_id \<noteq> [] \<longrightarrow>
            fst (join_room sign svc now db room_id u) = db) \<and>
         fst (join_room sign' svc' now'
                (fst (join_room sign svc now db room_id u)) room_id u) =
           fst (join_room sign svc now db room_id u) \<and>
         length (active_rows
                   (fst (join_room sign' svc' now'
                           (fst (join_room sign svc now db room_id u)) room_id u))
                   (u_id u) room_id) \<le> 1"
proof -
  let ?db1 = "fst (join_room sign svc now db room_id u)"
  have inv: "one_active_per_pair ?db1"
    using assms by (simp add: join_room_state one_active_append)
  have reuse: "active_rows db (u_id u) room_id \<noteq> [] \<longrightarrow> ?db1 = db"
    by (simp add: join_room_state)
  have twice: "fst (join_room sign' svc' now' ?db1 room_id u) = ?db1"
    by (rule join_room_twice)
  have "length (active_rows ?db1 (u_id u) room_id) \<le> 1"
    using inv unfolding one_active_per_pair_def active_rows_def by (rule one_active_count)
  with inv reuse twice show ?thesis
    by simp
qed

lemma join_room_example:
  "fst (join_room reference_sign example_service 5 example_db 1 bob) =
     example_db\<lparr>room_memberships :=
       [alice_in_standup,
        \<lparr>m_id = 2, m_user_id = 2, m_room_id = 1, m_joined_at = 5, m_left_at = None,
         m_is_active = True\<rparr>]\<rparr>"
  by (simp add: join_room_state active_rows_def new_membership_def next_id_def example_defs)

text \<open>Bob joins the room standup twice; alice, who is in the room, joins again.\<close>

theorem join_room_one_active_witness:
  "one_active_per_pair example_db \<and>
   one_active_per_pair (fst (join_room reference_sign example_service 5 example_db 1 bob)) \<and>
   fst (join_room reference_sign example_service 6
          (fst (join_room reference_sign example_service 5 example_db 1 bob)) 1 bob) =
     fst (join_room reference_sign example_service 5 example_db 1 bob) \<and>
   length (active_rows
             (fst (join_room reference_sign example_service 6
                     (fst (join_room reference_sign example_service 5 example_db 1 bob))
                     1 bob))
             (u_id bob) 1) = 1 \<and>
   active_rows example_db (u_id alice) 1 \<noteq> [] \<and>
   fst (join_room reference_sign example_service 5 example_db 1 alice) = example_db"
proof -
  have a: "one_active_per_pair example_db"
    by (simp add: one_active_per_pair_def example_defs)
  have b: "active_rows example_db (u_id alice) 1 \<noteq> []"
    by (simp add: active_rows_def example_defs)
  have c: "active_rows (fst (join_room reference_sign example_service 5 example_db 1 bob))
             (u_id bob) 1 \<noteq> []"
    unfolding join_room_example by (simp add: active_rows_def example_defs)
  note bob = join_room_one_active [OF a, of reference_sign example_service 5 1 bob
      reference_sign example_service 6]
  note alice = join_room_one_active [OF a, of reference_sign example_service 5 1 alice
      reference_sign example_service 6]
  from bob c have "length (active_rows
             (fst (join_room reference_sign example_service 6
                     (fst (join_room reference_sign example_service 5 example_db 1 bob))
                     1 bob))
             (u_id bob) 1) = 1"
    by (cases "active_rows (fst (join_room reference_sign example_service 5 example_db 1 bob))
             (u_id bob) 1") auto
  with a b bob alice show ?thesis
    by blast
qed

text \<open>
  Claim C10, as amended. Let \<open>r\<close> be the room that \<open>room_id\<close> names. For every user
  and every membership table, \<open>join_room\<close> leaves the user with an active row for the
  room, and when the name of the room is not empty it answers with the token response;
  \<open>r_max_participants\<close> is not read. A user without an active row adds one to the
  number of active rows of the room, so where that number had reached
  \<open>r_max_participants\<close> it is above it afterwards.
\<close>

theorem join_room_ignores_max_participants:
  assumes "find (\<lambda>r. r_id r = room_id) (rooms db) = Some r"
  shows "\<exists>db' answer. join_room sign svc now db room_id u = (db', answer) \<and>
           (r_name r \<noteq> [] \<longrightarrow> answer = Inr (join_response sign svc r u)) \<and>
           active_rows db' (u_id u) room_id \<noteq> [] \<and>
           (active_rows db (u_id u) room_id = [] \<longrightarrow>
              participant_count db' room_id = participant_count db room_id + 1) \<and>
           (active_rows db (u_id u) room_id = [] \<and>
            r_max_participants r \<le> int (participant_count db room_id) \<longrightarrow>
              r_max_participants r < int (participant_count db' room_id))"
proof -
  let ?db' = "fst (join_room sign svc now db room_id u)"
  have a: "join_room sign svc now db room_id u = (?db', join_answer sign svc r u)"
    using assms by (rule join_room_found)
  have a': "r_name r \<noteq> [] \<longrightarrow> join_answer sign svc r u = Inr (join_response sign svc r u)"
    by (simp add: join_answer_def)
  have b: "active_rows ?db' (u_id u) room_id \<noteq> []"
    using assms by (rule join_room_active_after)
  have c: "active_rows db (u_id u) room_id = [] \<longrightarrow>
             participant_count ?db' room_id = participant_count db room_id + 1"
    using assms by (simp add: join_room_state participant_count_append)
  from c have d: "active_rows db (u_id u) room_id = [] \<and>
            r_max_participants r \<le> int (participant_count db room_id) \<longrightarrow>
              r_max_participants r < int (participant_count ?db' room_id)"
    by auto
  from a a' b c d show ?thesis
    by blast
qed

text \<open>
  The room standup is active, holds one participant at most and alice is in it; bob
  joins, gets his token and is the second active member.
\<close>

theorem join_room_ignores_max_participants_witness:
  "find (\<lambda>r. r_id r = 1) (rooms example_db) = Some standup \<and>
   r_is_active standup \<and>
   r_name standup = ''standup'' \<and>
   r_max_participants standup = 1 \<and>
   participant_count example_db 1 = 1 \<and>
   active_rows example_db (u_id bob) 1 = [] \<and>
   (\<exists>db'. join_room reference_sign example_service 5 example_db 1 bob =
            (db', Inr (join_response reference_sign example_service standup bob)) \<and>
      active_rows db' (u_id bob) 1 \<noteq> [] \<and>
      participant_count db' 1 = 2 \<and>
      r_max_participants standup < int (participant_count db' 1))"
proof -
  have a: "find (\<lambda>r. r_id r = 1) (rooms example_db) = Some standup"
    by (simp add: example_defs)
  have b: "active_rows example_db (u_id bob) 1 = []"
    by (simp add: active_rows_def example_defs)
  have c: "participant_count example_db 1 = 1"
    by (simp add: participant_count_def example_defs)
  have d: "r_is_active standup" "r_max_participants standup = 1"
    "r_name standup = ''standup''"
    by (simp_all add: example_defs)
  from join_room_ignores_max_participants [OF a, of reference_sign example_service 5 bob]
    a b c d
  show ?thesis by auto
qed

text \<open>
  Claim C10 as it is written fails for an active room whose name is empty: bob's
  membership row is committed, then the signer raises and the request ends with that
  exception, without a token.
\<close>

theorem join_room_nameless_counterexample:
  "find (\<lambda>r. r_id r = 1) (rooms nameless_db) = Some nameless \<and>
   r_is_active nameless \<and>
   join_room reference_sign example_service 5 nameless_db 1 bob =
     (nameless_db\<lparr>room_memberships :=
        [\<lparr>m_id = 1, m_user_id = 2, m_room_id = 1, m_joined_at = 5, m_left_at = None,
          m_is_active = True\<rparr>]\<rparr>,
      Inl (Unhandled ''identity and room must be set when joining a room''))"
proof -
  have a: "find (\<lambda>r. r_id r = 1) (rooms nameless_db) = Some nameless"
    by (simp add: nameless_db_def nameless_def)
  have b: "r_name nameless = []" "r_is_active nameless"
    by (simp_all add: nameless_def)
  have c: "fst (join_room reference_sign example_service 5 nameless_db 1 bob) =
      nameless_db\<lparr>room_memberships :=
        [\<lparr>m_id = 1, m_user_id = 2, m_room_id = 1, m_joined_at = 5, m_left_at = None,
          m_is_active = True\<rparr>]\<rparr>"
    by (simp add: join_room_state active_rows_def new_membership_def next_id_def
          nameless_db_def nameless_def bob_def)
  from join_room_unnamed [OF a b(1), of reference_sign example_service 5 bob] a b c
  show ?thesis by simp
qed

text \<open>
  Claim C4 says that a join after the creator's delete answers 404 and leaves no token
  and no membership row. The code does otherwise: \<open>join_room\<close> looks the room up by
  its id alone, so after \<open>delete_room\<close> by the creator it still finds the room (now
  inactive) and leaves any user who asks with an active membership row for the deleted
  room. The answer is the token response (for a room whose name is empty, the
  exception of the signer), never 404.
\<close>

theorem join_room_after_delete_room:
  assumes "find (\<lambda>r. r_id r = room_id) (rooms db) = Some r"
    and "r_creator_id r = u_id creator"
  shows "\<exists>db' db''.
           delete_room platform svc db room_id creator =
             (db', Inr ''Room deleted successfully'') \<and>
           find (\<lambda>r. r_id r = room_id) (rooms db') = Some (r\<lparr>r_is_active := False\<rparr>) \<and>
           (r_name r \<noteq> [] \<longrightarrow>
              join_room sign svc now db' room_id u =
                (db'', Inr (join_response sign svc (r\<lparr>r_is_active := False\<rparr>) u))) \<and>
           (r_name r = [] \<longrightarrow>
              join_room sign svc now db' room_id u =
                (db'', Inl (Unhandled ''identity and room must be set when joining a room''))) \<and>
           active_rows db'' (u_id u) room_id \<noteq> []"
proof -
  let ?db' = "soft_delete room_id db"
  let ?db'' = "fst (join_room sign svc now ?db' room_id u)"
  have first: "delete_room platform svc db room_id creator =
      (?db', Inr ''Room deleted successfully'')"
    unfolding soft_delete_def using assms by (rule delete_room_creator)
  have found: "find (\<lambda>r. r_id r = room_id) (rooms ?db') = Some (r\<lparr>r_is_active := False\<rparr>)"
    using assms(1) by (rule soft_delete_find)
  have named: "r_name r \<noteq> [] \<longrightarrow> join_room sign svc now ?db' room_id u =
      (?db'', Inr (join_response sign svc (r\<lparr>r_is_active := False\<rparr>) u))"
    using join_room_named [OF found, of sign svc now u] by simp
  have unnamed: "r_name r = [] \<longrightarrow> join_room sign svc now ?db' room_id u =
      (?db'', Inl (Unhandled ''identity and room must be set when joining a room''))"
    using join_room_unnamed [OF found, of sign svc now u] by simp
  have active: "active_rows ?db'' (u_id u) room_id \<noteq> []"
    using found by (rule join_room_active_after)
  from first found named unnamed active show ?thesis
    by blast
qed

text \<open>
  Alice deletes standup, then bob joins it: the answer is the token for standup and
  bob's new row is active.
\<close>

theorem join_room_after_delete_room_witness:
  "find (\<lambda>r. r_id r = 1) (rooms example_db) = Some standup \<and>
   r_creator_id standup = u_id alice \<and>
   delete_room unreachable_platform example_service example_db 1 alice =
     (deleted_db, Inr ''Room deleted successfully'') \<and>
   join_room reference_sign example_service 5 deleted_db 1 bob =
     (deleted_db\<lparr>room_memberships :=
        [alice_in_standup\<lparr>m_is_active := False\<rparr>,
         \<lparr>m_id = 2, m_user_id = 2, m_room_id = 1, m_joined_at = 5, m_left_at = None,
          m_is_active = True\<rparr>]\<rparr>,
      Inr \<lparr>tr_token =
             \<lparr>token_api_key = ''key'', token_api_secret = ''secret'',
              token_claims = join_claims ''standup'' ''2'' (Some ''bob'') (Some ''user_id:2'')\<rparr>,
           tr_room_name = ''standup'', tr_participant_identity = ''2'',
           tr_livekit_url = ''wss://lk.example''\<rparr>)"
proof -
  have a: "find (\<lambda>r. r_id r = 1) (rooms example_db) = Some standup"
    by (simp add: example_defs)
  have b: "r_creator_id standup = u_id alice"
    by (simp add: example_defs)
  have n: "r_name standup \<noteq> []"
    by (simp add: standup_def)
  from join_room_after_delete_room [OF a b, of unreachable_platform example_service
      reference_sign 5 bob] n
  obtain db' db'' where
    d: "delete_room unreachable_platform example_service example_db 1 alice =
          (db', Inr ''Room deleted successfully'')"
    and j: "join_room reference_sign example_service 5 db' 1 bob =
          (db'', Inr (join_response reference_sign example_service
                        (standup\<lparr>r_is_active := False\<rparr>) bob))"
    by blast
  have del: "delete_room unreachable_platform example_service example_db 1 alice =
          (deleted_db, Inr ''Room deleted successfully'')"
    using delete_room_creator [OF a b, of unreachable_platform example_service]
    by (simp add: example_defs)
  with d have db': "db' = deleted_db"
    by simp
  have "fst (join_room reference_sign example_service 5 deleted_db 1 bob) =
          deleted_db\<lparr>room_memberships :=
            [alice_in_standup\<lparr>m_is_active := False\<rparr>,
             \<lparr>m_id = 2, m_user_id = 2, m_room_id = 1, m_joined_at = 5, m_left_at = None,
              m_is_active = True\<rparr>]\<rparr>"
    by (simp add: join_room_state active_rows_def new_membership_def next_id_def
          example_defs)
  with j db' have "join_room reference_sign example_service 5 deleted_db 1 bob =
      (deleted_db\<lparr>room_memberships :=
            [alice_in_standup\<lparr>m_is_active := False\<rparr>,
             \<lparr>m_id = 2, m_user_id = 2, m_room_id = 1, m_joined_at = 5, m_left_at = None,
              m_is_active = True\<rparr>]\<rparr>,
       Inr (join_response reference_sign example_service
              (standup\<lparr>r_is_active := False\<rparr>) bob))"
    by (metis fst_conv)
  moreover have "join_response reference_sign example_service
                   (standup\<lparr>r_is_active := False\<rparr>) bob =
      \<lparr>tr_token =
             \<lparr>token_api_key = ''key'', token_api_secret = ''secret'',
              token_claims = join_claims ''standup'' ''2'' (Some ''bob'') (Some ''user_id:2'')\<rparr>,
           tr_room_name = ''standup'', tr_participant_identity = ''2'',
           tr_livekit_url = ''wss://lk.example''\<rparr>"
    by (simp add: join_response_def join_token_def reference_sign_def
          truthy_def str_examples example_defs)
  ultimately show ?thesis
    using a b del by simp
qed

section \<open>Registration\<close>

lemma register_user_existing:
  assumes "a \<in> set (users db)"
    and "u_email a = uc_email req \<or> u_username a = uc_username req"
  shows "register_user get_password_hash now db req =
           (db, Inl (HTTPException 400 ''User with this email or username already exists''))"
proof -
  from assms obtain y where
    "find (\<lambda>u. u_email u = uc_email req \<or> u_username u = uc_username req) (users db) = Some y"
    using find_exists [of a "users db"
        "\<lambda>u. u_email u = uc_email req \<or> u_username u = uc_username req"]
    by blast
  then show ?thesis
    by (simp add: register_user_def)
qed

lemma register_user_accepted:
  assumes "register_user get_password_hash now db req = (db', Inr resp)"
  shows "accounts_like db req = [] \<and>
         db' = db\<lparr>users := users db @ [new_user get_password_hash now db req]\<rparr>"
proof (cases "find (\<lambda>u. u_email u = uc_email req \<or> u_username u = uc_username req) (users db)")
  case None
  with assms show ?thesis
    by (auto simp: register_user_def new_user_def accounts_like_def Let_def find_None_filter)
next
  case (Some y)
  with assms show ?thesis
    by (simp add: register_user_def)
qed

text \<open>
  Claim C8. Where an account \<open>a\<close> is in the table and a registration request has the
  email of \<open>a\<close> or the username of \<open>a\<close>, \<open>register_user\<close> answers 400 and the
  committed state is the state before: no row is inserted. And where a first
  registration is accepted, a second one with the same email or the same username is
  answered 400 in the state the first left, in which exactly one account has that
  email or that username.
\<close>

theorem register_user_duplicate:
  "(a \<in> set (users db) \<and> (uc_email req = u_email a \<or> uc_username req = u_username a) \<longrightarrow>
      register_user get_password_hash now db req =
        (db, Inl (HTTPException 400 ''User with this email or username already exists''))) \<and>
   (register_user get_password_hash now db first = (db1, Inr resp) \<and>
    (uc_email second = uc_email first \<or> uc_username second = uc_username first) \<longrightarrow>
      register_user get_password_hash' now' db1 second =
        (db1, Inl (HTTPException 400 ''User with this email or username already exists'')) \<and>
      length (accounts_like db1 first) = 1)"
proof (intro conjI impI)
  assume "a \<in> set (users db) \<and> (uc_email req = u_email a \<or> uc_username req = u_username a)"
  then show "register_user get_password_hash now db req =
        (db, Inl (HTTPException 400 ''User with this email or username already exists''))"
    by (intro register_user_existing [of a]) auto
next
  assume h: "register_user get_password_hash now db first = (db1, Inr resp) \<and>
    (uc_email second = uc_email first \<or> uc_username second = uc_username first)"
  then have acc: "accounts_like db first = []"
    and db1: "db1 = db\<lparr>users := users db @ [new_user get_password_hash now db first]\<rparr>"
    using register_user_accepted by blast+
  let ?n = "new_user get_password_hash now db first"
  have "?n \<in> set (users db1)"
    by (simp add: db1)
  moreover from h have "u_email ?n = uc_email second \<or> u_username ?n = uc_username second"
    by (auto simp: new_user_def)
  ultimately show "register_user get_password_hash' now' db1 second =
        (db1, Inl (HTTPException 400 ''User with this email or username already exists''))"
    by (rule register_user_existing)
  from acc show "length (accounts_like db1 first) = 1"
    by (simp add: accounts_like_def db1 new_user_def)
qed

lemma register_user_example:
  "register_user (\<lambda>p. ''hash:'' @ p) 7 example_db carol_request =
     (example_db\<lparr>users :=
        [alice, bob,
         \<lparr>u_id = 3, u_username = ''carol'', u_email = ''carol@example.org'',
          u_hashed_password = ''hash:pw'', u_is_active = True, u_created_at = 7\<rparr>]\<rparr>,
      Inr \<lparr>ur_id = 3, ur_username = ''carol'', ur_email = ''carol@example.org'',
           ur_is_active = True, ur_created_at = 7\<rparr>)"
  by (simp add: register_user_def next_id_def carol_request_def example_defs)

text \<open>
  A request with alice's username is refused; carol registers, and a second request
  with carol's email is refused, with one account of that email or username.
\<close>

theorem register_user_duplicate_witness:
  "alice \<in> set (users example_db) \<and>
   uc_username alice_same_username = u_username alice \<and>
   register_user (\<lambda>p. ''hash:'' @ p) 7 example_db alice_same_username =
     (example_db, Inl (HTTPException 400 ''User with this email or username already exists'')) \<and>
   uc_email carol_same_email = uc_email carol_request \<and>
   (\<exists>db1 resp.
      register_user (\<lambda>p. ''hash:'' @ p) 7 example_db carol_request = (db1, Inr resp) \<and>
      register_user (\<lambda>p. ''hash:'' @ p) 8 db1 carol_same_email =
        (db1, Inl (HTTPException 400 ''User with this email or username already exists'')) \<and>
      length (accounts_like db1 carol_request) = 1)"
proof -
  have a: "alice \<in> set (users example_db)"
    by (simp add: example_db_def)
  have b: "uc_username alice_same_username = u_username alice"
    by (simp add: alice_same_username_def alice_def)
  have c: "uc_email carol_same_email = uc_email carol_request"
    by (simp add: carol_same_email_def carol_request_def)
  note first = register_user_duplicate [of alice example_db alice_same_username
      "\<lambda>p. ''hash:'' @ p" 7]
  note second = register_user_duplicate [where first = carol_request
      and second = carol_same_email and get_password_hash = "\<lambda>p. ''hash:'' @ p"
      and get_password_hash' = "\<lambda>p. ''hash:'' @ p" and now = 7 and now' = 8
      and db = example_db]
  from first a b have
    "register_user (\<lambda>p. ''hash:'' @ p) 7 example_db alice_same_username =
       (example_db, Inl (HTTPException 400 ''User with this email or username already exists''))"
    by blast
  moreover from second c register_user_example have
    "\<exists>db1 resp.
      register_user (\<lambda>p. ''hash:'' @ p) 7 example_db carol_request = (db1, Inr resp) \<and>
      register_user (\<lambda>p. ''hash:'' @ p) 8 db1 carol_same_email =
        (db1, Inl (HTTPException 400 ''User with this email or username already exists'')) \<and>
      length (accounts_like db1 carol_request) = 1"
    by blast
  ultimately show ?thesis
    using a b c by blast
qed

section \<open>Creating a room\<close>

lemma create_room_existing:
  assumes "r \<in> set (rooms db)" and "r_name r = rc_name req"
  shows "create_room integer_max platform svc now db req u =
           (db, Inl (HTTPException 400 ''Room with this name already exists''))"
proof -
  from assms obtain y where "find (\<lambda>r. r_name r = rc_name req) (rooms db) = Some y"
    using find_exists [of r "rooms db" "\<lambda>r. r_name r = rc_name req"] by blast
  then show ?thesis
    by (simp add: create_room_def)
qed

text \<open>
  A request with a new name: the row is committed and answered when
  \<^verbatim>\<open>max_participants\<close> fits the column, whatever the platform does; otherwise the
  commit raises and nothing is stored.
\<close>

lemma create_room_fresh:
  assumes "find (\<lambda>r. r_name r = rc_name req) (rooms db) = None"
    and "fits_integer integer_max (r_max_participants (new_room now db req u))"
  shows "create_room integer_max platform svc now db req u =
           (db\<lparr>rooms := rooms db @ [new_room now db req u]\<rparr>,
            Inr (room_response (new_room now db req u) 0))"
proof -
  obtain v where
    "LiveKitService_create_room platform svc (rc_name req) (rc_max_participants req) = Returns v"
    using gateway_create_returns by blast
  with assms show ?thesis
    by (simp add: create_room_def new_room_def room_response_def Let_def)
qed

lemma create_room_overflow:
  assumes "find (\<lambda>r. r_name r = rc_name req) (rooms db) = None"
    and "\<not> fits_integer integer_max (r_max_participants (new_room now db req u))"
  shows "create_room integer_max platform svc now db req u =
           (db, Inl (Unhandled ''integer out of range''))"
  using assms by (simp add: create_room_def new_room_def Let_def)

lemma create_room_any_platform:
  "create_room integer_max platform svc now db req u =
     create_room integer_max platform' svc now db req u"
proof (cases "find (\<lambda>r. r_name r = rc_name req) (rooms db)")
  case None
  then show ?thesis
    by (cases "fits_integer integer_max (r_max_participants (new_room now db req u))")
       (simp_all add: create_room_fresh create_room_overflow)
next
  case (Some y)
  then show ?thesis
    by (simp add: create_room_def)
qed

lemma create_room_answered:
  assumes "create_room integer_max platform svc now db req u = (db', Inr resp)"
  shows "db' = db\<lparr>rooms := rooms db @ [new_room now db req u]\<rparr> \<and>
         resp = room_response (new_room now db req u) 0"
proof (cases "find (\<lambda>r. r_name r = rc_name req) (rooms db)")
  case None
  show ?thesis
  proof (cases "fits_integer integer_max (r_max_participants (new_room now db req u))")
    case True
    with None assms show ?thesis
      by (simp add: create_room_fresh)
  next
    case False
    with None assms show ?thesis
      by (simp add: create_room_overflow)
  qed
next
  case (Some y)
  with assms show ?thesis
    by (simp add: create_room_def)
qed

text \<open>
  Claim C9. Where a room row \<open>r\<close> with \<open>is_active\<close> false is in the table, a
  \<open>create_room\<close> request with the name of \<open>r\<close> answers 400 with the duplicate-name
  detail and changes nothing: the check looks at the name alone. In particular the
  request is refused in the state that \<open>delete_room\<close> by the creator leaves.
\<close>

theorem create_room_name_of_deleted_room:
  "(r \<in> set (rooms db) \<and> \<not> r_is_active r \<and> rc_name req = r_name r \<longrightarrow>
      create_room integer_max platform svc now db req u =
        (db, Inl (HTTPException 400 ''Room with this name already exists''))) \<and>
   (find (\<lambda>r. r_id r = room_id) (rooms db) = Some r \<and> r_creator_id r = u_id creator \<and>
    rc_name req = r_name r \<longrightarrow>
      create_room integer_max platform svc now (fst (delete_room platform' svc' db room_id creator)) req u =
        (fst (delete_room platform' svc' db room_id creator),
         Inl (HTTPException 400 ''Room with this name already exists'')))"
proof (intro conjI impI)
  assume "r \<in> set (rooms db) \<and> \<not> r_is_active r \<and> rc_name req = r_name r"
  then show "create_room integer_max platform svc now db req u =
        (db, Inl (HTTPException 400 ''Room with this name already exists''))"
    by (intro create_room_existing [of r]) simp_all
next
  assume h: "find (\<lambda>r. r_id r = room_id) (rooms db) = Some r \<and>
    r_creator_id r = u_id creator \<and> rc_name req = r_name r"
  then have found: "find (\<lambda>r. r_id r = room_id) (rooms db) = Some r"
    and creator: "r_creator_id r = u_id creator" and name: "rc_name req = r_name r"
    by blast+
  let ?db' = "soft_delete room_id db"
  have first: "delete_room platform' svc' db room_id creator =
      (?db', Inr ''Room deleted successfully'')"
    unfolding soft_delete_def using found creator by (rule delete_room_creator)
  have "find (\<lambda>r. r_id r = room_id) (rooms ?db') = Some (r\<lparr>r_is_active := False\<rparr>)"
    using found by (rule soft_delete_find)
  then have "r\<lparr>r_is_active := False\<rparr> \<in> set (rooms ?db')"
    by (rule find_member)
  moreover from name have "r_name (r\<lparr>r_is_active := False\<rparr>) = rc_name req"
    by simp
  ultimately have "create_room integer_max platform svc now ?db' req u =
      (?db', Inl (HTTPException 400 ''Room with this name already exists''))"
    by (rule create_room_existing)
  with first show "create_room integer_max platform svc now
      (fst (delete_room platform' svc' db room_id creator)) req u =
        (fst (delete_room platform' svc' db room_id creator),
         Inl (HTTPException 400 ''Room with this name already exists''))"
    by simp
qed

text \<open>Bob asks for a new room named standup after alice has deleted hers.\<close>

theorem create_room_name_of_deleted_room_witness:
  "standup\<lparr>r_is_active := False\<rparr> \<in> set (rooms deleted_db) \<and>
   \<not> r_is_active (standup\<lparr>r_is_active := False\<rparr>) \<and>
   rc_name standup_again = r_name (standup\<lparr>r_is_active := False\<rparr>) \<and>
   create_room 2147483647 unreachable_platform example_service 9 deleted_db standup_again bob =
     (deleted_db, Inl (HTTPException 400 ''Room with this name already exists'')) \<and>
   fst (delete_room unreachable_platform example_service example_db 1 alice) = deleted_db \<and>
   create_room 2147483647 unreachable_platform example_service 9
       (fst (delete_room unreachable_platform example_service example_db 1 alice))
       standup_again bob =
     (fst (delete_room unreachable_platform example_service example_db 1 alice),
      Inl (HTTPException 400 ''Room with this name already exists''))"
proof -
  have a: "standup\<lparr>r_is_active := False\<rparr> \<in> set (rooms deleted_db)"
    by (simp add: deleted_db_def)
  have b: "\<not> r_is_active (standup\<lparr>r_is_active := False\<rparr>)"
    by simp
  have c: "rc_name standup_again = r_name (standup\<lparr>r_is_active := False\<rparr>)"
    by (simp add: standup_again_def standup_def)
  have d: "find (\<lambda>r. r_id r = 1) (rooms example_db) = Some standup"
    by (simp add: example_defs)
  have e: "r_creator_id standup = u_id alice"
    by (simp add: example_defs)
  have f: "rc_name standup_again = r_name standup"
    by (simp add: standup_again_def standup_def)
  have g: "fst (delete_room unreachable_platform example_service example_db 1 alice) =
             deleted_db"
    using delete_room_creator [OF d e, of unreachable_platform example_service]
    by (simp add: example_defs)
  note inactive = create_room_name_of_deleted_room [where r = "standup\<lparr>r_is_active := False\<rparr>"
      and integer_max = 2147483647 and db = deleted_db and req = standup_again and platform = unreachable_platform
      and svc = example_service and now = 9 and u = bob]
  note deleted = create_room_name_of_deleted_room [where r = standup and integer_max = 2147483647 and db = example_db
      and req = standup_again and platform = unreachable_platform and svc = example_service
      and now = 9 and u = bob and room_id = 1 and creator = alice
      and platform' = unreachable_platform and svc' = example_service]
  from inactive a b c have
    "create_room 2147483647 unreachable_platform example_service 9 deleted_db standup_again bob =
       (deleted_db, Inl (HTTPException 400 ''Room with this name already exists''))"
    by blast
  moreover from deleted d e f have
    "create_room 2147483647 unreachable_platform example_service 9
       (fst (delete_room unreachable_platform example_service example_db 1 alice))
       standup_again bob =
     (fst (delete_room unreachable_platform example_service example_db 1 alice),
      Inl (HTTPException 400 ''Room with this name already exists''))"
    by blast
  ultimately show ?thesis
    using a b c g by blast
qed

section \<open>Failures of the platform\<close>

lemma get_room_details_degraded:
  assumes "find (\<lambda>r. r_id r = room_id) (rooms db) = Some r"
    and "LiveKitService_get_room_info platform svc (r_name r) = Returns None"
  shows "get_room_details platform svc db room_id u = (db, Inr (room_without_participants r))"
  using assms
  by (simp add: get_room_details_def room_without_participants_def)

lemma delete_room_any_platform:
  "delete_room platform svc db room_id u = delete_room platform' svc db room_id u"
proof (cases "find (\<lambda>r. r_id r = room_id) (rooms db)")
  case None
  then show ?thesis
    by (simp add: delete_room_def)
next
  case (Some r)
  then show ?thesis
    by (cases "r_creator_id r = u_id u") (simp_all add: delete_room_creator, simp add: delete_room_def)
qed

lemma new_room_retro:
  "new_room 9 example_db retro alice =
     \<lparr>r_id = 2, r_name = ''retro'', r_display_name = ''Retro'',
      r_description = Some ''weekly'', r_creator_id = 1, r_is_active = True,
      r_max_participants = 50, r_created_at = 9\<rparr>"
  by (simp add: new_room_def next_id_def retro_def example_defs)

text \<open>
  Claim C6. Whatever the platform does, the three gateway methods return; where the
  construction of the client or a call on it raises, \<open>get_room_info\<close> and
  \<open>create_room\<close> return \<open>None\<close> and \<open>delete_room\<close> returns \<open>False\<close>. The handlers do
  not turn a failure of the platform into an error of the request and do not undo what
  they committed because of it: \<open>create_room\<close> and \<open>delete_room\<close> commit the same
  state and give the same answer under any two platforms; a \<open>create_room\<close> that is
  answered has committed the room row, and it is answered under every platform when
  the name is new and \<^verbatim>\<open>max_participants\<close> fits the column; \<open>delete_room\<close> by the
  creator commits the deactivation and answers with success; and \<open>get_room_details\<close>
  answers with the room and an empty participant list when \<open>get_room_info\<close> yields
  \<open>None\<close>.
\<close>

theorem upstream_failures_absorbed:
  "(\<exists>v. LiveKitService_get_room_info platform svc n = Returns v) \<and>
   (\<exists>v. LiveKitService_create_room platform svc n mp = Returns v) \<and>
   (\<exists>v. LiveKitService_delete_room platform svc n = Returns v) \<and>
   (platform (http_uri svc) (api_key svc) (api_secret svc) = Raises e \<longrightarrow>
      LiveKitService_get_room_info platform svc n = Returns None \<and>
      LiveKitService_create_room platform svc n mp = Returns None \<and>
      LiveKitService_delete_room platform svc n = Returns False) \<and>
   (platform (http_uri svc) (api_key svc) (api_secret svc) = Returns c \<longrightarrow>
      (rs_get_room c n = Raises e \<longrightarrow>
         LiveKitService_get_room_info platform svc n = Returns None) \<and>
      (rs_list_participants c n = Raises e \<longrightarrow>
         LiveKitService_get_room_info platform svc n = Returns None) \<and>
      (rs_create_room c n mp = Raises e \<longrightarrow>
         LiveKitService_create_room platform svc n mp = Returns None) \<and>
      (rs_delete_room c n = Raises e \<longrightarrow>
         LiveKitService_delete_room platform svc n = Returns False)) \<and>
   create_room integer_max platform svc now db req u =
     create_room integer_max platform' svc now db req u \<and>
   delete_room platform svc db room_id u = delete_room platform' svc db room_id u \<and>
   (create_room integer_max platform svc now db req u = (db', Inr resp) \<longrightarrow>
      db' = db\<lparr>rooms := rooms db @ [new_room now db req u]\<rparr> \<and>
      resp = room_response (new_room now db req u) 0) \<and>
   (find (\<lambda>r. r_name r = rc_name req) (rooms db) = None \<and>
    fits_integer integer_max (r_max_participants (new_room now db req u)) \<longrightarrow>
      create_room integer_max platform svc now db req u =
        (db\<lparr>rooms := rooms db @ [new_room now db req u]\<rparr>,
         Inr (room_response (new_room now db req u) 0))) \<and>
   (find (\<lambda>r. r_id r = room_id) (rooms db) = Some r \<and> r_creator_id r = u_id u \<longrightarrow>
      delete_room platform svc db room_id u =
        (soft_delete room_id db, Inr ''Room deleted successfully'')) \<and>
   (find (\<lambda>r. r_id r = room_id) (rooms db) = Some r \<and>
    LiveKitService_get_room_info platform svc (r_name r) = Returns None \<longrightarrow>
      get_room_details platform svc db room_id u = (db, Inr (room_without_participants r)))"
proof -
  have ret: "\<exists>v. LiveKitService_get_room_info platform svc n = Returns v"
    "\<exists>v. LiveKitService_create_room platform svc n mp = Returns v"
    "\<exists>v. LiveKitService_delete_room platform svc n = Returns v"
    by (rule gateway_info_returns, rule gateway_create_returns, rule gateway_delete_returns)
  have conn: "platform (http_uri svc) (api_key svc) (api_secret svc) = Raises e \<longrightarrow>
      LiveKitService_get_room_info platform svc n = Returns None \<and>
      LiveKitService_create_room platform svc n mp = Returns None \<and>
      LiveKitService_delete_room platform svc n = Returns False"
    using gateway_connect_fails [of platform svc e] by blast
  have call: "platform (http_uri svc) (api_key svc) (api_secret svc) = Returns c \<longrightarrow>
      (rs_get_room c n = Raises e \<longrightarrow>
         LiveKitService_get_room_info platform svc n = Returns None) \<and>
      (rs_list_participants c n = Raises e \<longrightarrow>
         LiveKitService_get_room_info platform svc n = Returns None) \<and>
      (rs_create_room c n mp = Raises e \<longrightarrow>
         LiveKitService_create_room platform svc n mp = Returns None) \<and>
      (rs_delete_room c n = Raises e \<longrightarrow>
         LiveKitService_delete_room platform svc n = Returns False)"
    using gateway_call_fails [of platform svc c] by blast
  have same_create: "create_room integer_max platform svc now db req u =
      create_room integer_max platform' svc now db req u"
    by (rule create_room_any_platform)
  have same_delete: "delete_room platform svc db room_id u =
      delete_room platform' svc db room_id u"
    by (rule delete_room_any_platform)
  have answered: "create_room integer_max platform svc now db req u = (db', Inr resp) \<longrightarrow>
      db' = db\<lparr>rooms := rooms db @ [new_room now db req u]\<rparr> \<and>
      resp = room_response (new_room now db req u) 0"
    using create_room_answered by blast
  have created: "find (\<lambda>r. r_name r = rc_name req) (rooms db) = None \<and>
    fits_integer integer_max (r_max_participants (new_room now db req u)) \<longrightarrow>
      create_room integer_max platform svc now db req u =
        (db\<lparr>rooms := rooms db @ [new_room now db req u]\<rparr>,
         Inr (room_response (new_room now db req u) 0))"
    using create_room_fresh by blast
  have deleted: "find (\<lambda>r. r_id r = room_id) (rooms db) = Some r \<and> r_creator_id r = u_id u \<longrightarrow>
      delete_room platform svc db room_id u =
        (soft_delete room_id db, Inr ''Room deleted successfully'')"
    unfolding soft_delete_def using delete_room_creator by blast
  have details: "find (\<lambda>r. r_id r = room_id) (rooms db) = Some r \<and>
    LiveKitService_get_room_info platform svc (r_name r) = Returns None \<longrightarrow>
      get_room_details platform svc db room_id u = (db, Inr (room_without_participants r))"
    using get_room_details_degraded by blast
  from ret conn call same_create same_delete answered created deleted details show ?thesis
    by (intro conjI)
qed

text \<open>
  With the platform out of reach: the gateway yields \<open>None\<close>, \<open>None\<close> and \<open>False\<close>,
  alice's new room retro is committed and answered, her delete of standup is
  committed, and the details of standup come with no participants.
\<close>

theorem upstream_failures_absorbed_witness:
  "unreachable_platform (http_uri example_service) (api_key example_service)
     (api_secret example_service) = Raises ''connection refused'' \<and>
   LiveKitService_get_room_info unreachable_platform example_service ''standup'' =
     Returns None \<and>
   LiveKitService_create_room unreachable_platform example_service ''standup'' None =
     Returns None \<and>
   LiveKitService_delete_room unreachable_platform example_service ''standup'' =
     Returns False \<and>
   find (\<lambda>r. r_name r = rc_name retro) (rooms example_db) = None \<and>
   fits_integer 2147483647 (r_max_participants (new_room 9 example_db retro alice)) \<and>
   create_room 2147483647 unreachable_platform example_service 9 example_db retro alice =
     (example_db\<lparr>rooms := rooms example_db @ [new_room 9 example_db retro alice]\<rparr>,
      Inr (room_response (new_room 9 example_db retro alice) 0)) \<and>
   new_room 9 example_db retro alice =
     \<lparr>r_id = 2, r_name = ''retro'', r_display_name = ''Retro'',
      r_description = Some ''weekly'', r_creator_id = 1, r_is_active = True,
      r_max_participants = 50, r_created_at = 9\<rparr> \<and>
   find (\<lambda>r. r_id r = 1) (rooms example_db) = Some standup \<and>
   r_creator_id standup = u_id alice \<and>
   delete_room unreachable_platform example_service example_db 1 alice =
     (deleted_db, Inr ''Room deleted successfully'') \<and>
   get_room_details unreachable_platform example_service example_db 1 bob =
     (example_db, Inr (room_without_participants standup))"
proof -
  have a: "unreachable_platform (http_uri example_service) (api_key example_service)
     (api_secret example_service) = Raises ''connection refused''"
    by (simp add: unreachable_platform_def)
  have b: "find (\<lambda>r. r_name r = rc_name retro) (rooms example_db) = None"
    by (simp add: retro_def example_defs)
  have b': "fits_integer 2147483647 (r_max_participants (new_room 9 example_db retro alice))"
    by (simp add: new_room_retro fits_integer_def)
  have c: "find (\<lambda>r. r_id r = 1) (rooms example_db) = Some standup"
    by (simp add: example_defs)
  have d: "r_creator_id standup = u_id alice"
    by (simp add: example_defs)
  have e: "r_name standup = ''standup''"
    by (simp add: standup_def)
  note f = new_room_retro
  note fact = upstream_failures_absorbed [where platform = unreachable_platform
      and svc = example_service and n = "''standup''" and mp = None
      and e = "''connection refused''" and req = retro and db = example_db and now = 9
      and u = alice and room_id = 1 and r = standup and integer_max = 2147483647]
  note bobs = upstream_failures_absorbed [where platform = unreachable_platform
      and svc = example_service and n = "''standup''" and mp = None
      and e = "''connection refused''" and req = retro and db = example_db and now = 9
      and u = bob and room_id = 1 and r = standup and integer_max = 2147483647]
  from fact a have gw:
    "LiveKitService_get_room_info unreachable_platform example_service ''standup'' =
       Returns None"
    "LiveKitService_create_room unreachable_platform example_service ''standup'' None =
       Returns None"
    "LiveKitService_delete_room unreachable_platform example_service ''standup'' =
       Returns False"
    by blast+
  from fact b b' have cr:
    "create_room 2147483647 unreachable_platform example_service 9 example_db retro alice =
     (example_db\<lparr>rooms := rooms example_db @ [new_room 9 example_db retro alice]\<rparr>,
      Inr (room_response (new_room 9 example_db retro alice) 0))"
    by blast
  from fact c d have
    "delete_room unreachable_platform example_service example_db 1 alice =
       (soft_delete 1 example_db, Inr ''Room deleted successfully'')"
    by blast
  then have del:
    "delete_room unreachable_platform example_service example_db 1 alice =
       (deleted_db, Inr ''Room deleted successfully'')"
    by (simp only: soft_delete_example)
  from gw(1) e have gi:
    "LiveKitService_get_room_info unreachable_platform example_service (r_name standup) =
       Returns None"
    by simp
  from bobs c gi have det:
    "get_room_details unreachable_platform example_service example_db 1 bob =
     (example_db, Inr (room_without_participants standup))"
    by blast
  from a gw b b' cr f c d del det show ?thesis
    by (intro conjI)
qed

end
